theory Spec2Isabelle
  imports Main "HOL-Library.Sublist"
begin

text \<open>
  A model of the browser agent: the agent loop, its History Manager, the
  destructive-action gate and the dispatcher of \<open>agent/browser_agent.py\<close>, and the
  distillation and the click resolution of \<open>infrastructure/tools.py\<close>. Names follow
  the source; a leading underscore is dropped (\<open>_dispatch_tool\<close> is
  \<open>dispatch_tool\<close>), and the fields \<open>id\<close>, \<open>text\<close> and \<open>role\<close> of an element
  are \<open>el_id\<close>, \<open>el_text\<close> and \<open>el_role\<close>. Printing and logging are left out.
\<close>

section \<open>Python values\<close>

text \<open>
  A Python \<open>str\<close> is a sequence of Unicode code points, so it is modelled as a list of
  code points: \<open>len\<close>, slicing and \<open>in\<close> count code points, not bytes.
  \<open>ascii\<close> embeds an ASCII literal of the source.
\<close>

type_synonym ustr = "nat list"

definition ascii :: "string \<Rightarrow> ustr" where
  "ascii s = map of_char s"

text \<open>
  \<open>str.lower()\<close>, on the Basic Latin and Cyrillic blocks (the alphabets of every literal
  of the source); code points of other blocks are left as they are.
\<close>

definition lower_cp :: "nat \<Rightarrow> nat" where
  "lower_cp c =
     (if 65 \<le> c \<and> c \<le> 90 then c + 32
      else if 1024 \<le> c \<and> c \<le> 1039 then c + 80
      else if 1040 \<le> c \<and> c \<le> 1071 then c + 32
      else c)"

definition py_lower :: "ustr \<Rightarrow> ustr" where
  "py_lower s = map lower_cp s"

text \<open>\<open>str.isspace()\<close> on one code point, and \<open>str.strip()\<close>.\<close>

definition py_isspace :: "nat \<Rightarrow> bool" where
  "py_isspace c \<longleftrightarrow>
     (9 \<le> c \<and> c \<le> 13) \<or> (28 \<le> c \<and> c \<le> 32) \<or> c = 133 \<or> c = 160 \<or> c = 5760
     \<or> (8192 \<le> c \<and> c \<le> 8202) \<or> c = 8232 \<or> c = 8233 \<or> c = 8239 \<or> c = 8287
     \<or> c = 12288"

definition py_strip :: "ustr \<Rightarrow> ustr" where
  "py_strip s = rev (dropWhile py_isspace (rev (dropWhile py_isspace s)))"

text \<open>\<open>sep.join(parts)\<close>.\<close>

fun py_join :: "ustr \<Rightarrow> ustr list \<Rightarrow> ustr" where
  "py_join sep [] = []"
| "py_join sep [p] = p"
| "py_join sep (p # q # ps) = p @ sep @ py_join sep (q # ps)"

text \<open>\<open>needle in haystack\<close> on strings: the needle occurs as a contiguous run.\<close>

fun py_in :: "ustr \<Rightarrow> ustr \<Rightarrow> bool" where
  "py_in xs [] = (xs = [])"
| "py_in xs (y # ys) = (prefix xs (y # ys) \<or> py_in xs ys)"

text \<open>\<open>str(n)\<close> for an integer: decimal digits, with a minus sign when negative.\<close>

function str_of_nat :: "nat \<Rightarrow> ustr" where
  "str_of_nat n = (if n < 10 then [48 + n] else str_of_nat (n div 10) @ [48 + n mod 10])"
  by pat_completeness auto
termination
  by (relation "measure id") auto

definition str_of_int :: "int \<Rightarrow> ustr" where
  "str_of_int i = (if i < 0 then 45 # str_of_nat (nat (- i)) else str_of_nat (nat i))"

text \<open>
  Exceptions as values. \<open>KeyError\<close> carries the missing key; \<open>TypeError\<close> and
  \<open>ValueError\<close> are raised by the coercions of the dispatcher, where the message is never
  read; the other kinds carry \<open>str(exc)\<close>. \<open>TimeoutError\<close> is the browser driver's.
\<close>

datatype exn =
    KeyError ustr
  | TypeError
  | ValueError
  | RuntimeError ustr
  | TimeoutError ustr
  | OtherError ustr

fun exn_str :: "exn \<Rightarrow> ustr" where
  "exn_str (KeyError k) = [39] @ k @ [39]"
| "exn_str TypeError = []"
| "exn_str ValueError = []"
| "exn_str (RuntimeError m) = m"
| "exn_str (TimeoutError m) = m"
| "exn_str (OtherError m) = m"

text \<open>
  The values of a tool invocation's parameters: JSON scalars (null, booleans, integers,
  strings). Every parameter the dispatcher reads is a scalar; floats and nested
  containers are outside the model.
\<close>

datatype pyval = PNone | PBool bool | PInt int | PStr ustr

type_synonym pydict = "(ustr \<times> pyval) list"

text \<open>\<open>params.get(key)\<close> (None when absent) and \<open>params.get(key, default)\<close>.\<close>

definition dict_get :: "pydict \<Rightarrow> ustr \<Rightarrow> pyval" where
  "dict_get d k = (case map_of d k of None \<Rightarrow> PNone | Some v \<Rightarrow> v)"

definition dict_get_default :: "pydict \<Rightarrow> ustr \<Rightarrow> pyval \<Rightarrow> pyval" where
  "dict_get_default d k dflt = (case map_of d k of None \<Rightarrow> dflt | Some v \<Rightarrow> v)"

text \<open>\<open>params[key]\<close> raises KeyError when the key is absent.\<close>

definition dict_item :: "pydict \<Rightarrow> ustr \<Rightarrow> exn + pyval" where
  "dict_item d k = (case map_of d k of None \<Rightarrow> Inl (KeyError k) | Some v \<Rightarrow> Inr v)"

text \<open>Truthiness (\<open>bool(v)\<close>, \<open>v or w\<close>) and \<open>str(v)\<close>.\<close>

fun py_truthy :: "pyval \<Rightarrow> bool" where
  "py_truthy PNone = False"
| "py_truthy (PBool b) = b"
| "py_truthy (PInt i) = (i \<noteq> 0)"
| "py_truthy (PStr s) = (s \<noteq> [])"

definition py_or :: "pyval \<Rightarrow> pyval \<Rightarrow> pyval" where
  "py_or v w = (if py_truthy v then v else w)"

fun py_str :: "pyval \<Rightarrow> ustr" where
  "py_str PNone = ascii ''None''"
| "py_str (PBool b) = (if b then ascii ''True'' else ascii ''False'')"
| "py_str (PInt i) = str_of_int i"
| "py_str (PStr s) = s"

text \<open>
  \<open>int(v)\<close>: TypeError on None, the integer of a boolean or an integer, and for a string
  the decimal literal it holds (surrounding whitespace, a sign, ASCII digits with single
  underscores between them), ValueError otherwise.
\<close>

definition is_digit :: "nat \<Rightarrow> bool" where
  "is_digit c \<longleftrightarrow> 48 \<le> c \<and> c \<le> 57"

fun digits_ok :: "ustr \<Rightarrow> bool" where
  "digits_ok [] = False"
| "digits_ok [c] = is_digit c"
| "digits_ok (c # d # cs) =
     (if is_digit c then (if d = 95 then digits_ok cs else digits_ok (d # cs)) else False)"

definition digits_value :: "ustr \<Rightarrow> nat" where
  "digits_value cs = foldl (\<lambda>acc c. 10 * acc + (c - 48)) 0 (filter is_digit cs)"

definition int_of_str :: "ustr \<Rightarrow> exn + int" where
  "int_of_str s =
     (let t = py_strip s;
          neg = (t \<noteq> [] \<and> hd t = 45);
          body = (if t \<noteq> [] \<and> (hd t = 45 \<or> hd t = 43) then tl t else t)
      in if digits_ok body
         then Inr (if neg then - int (digits_value body) else int (digits_value body))
         else Inl ValueError)"

fun py_int :: "pyval \<Rightarrow> exn + int" where
  "py_int PNone = Inl TypeError"
| "py_int (PBool b) = Inr (if b then 1 else 0)"
| "py_int (PInt i) = Inr i"
| "py_int (PStr s) = int_of_str s"

section \<open>core/models.py\<close>

record AgentConfig =
  model :: ustr
  task :: ustr
  max_iterations :: int
  confirm_actions :: bool
  history_window :: int

record DistilledElement =
  el_id :: int
  agent_id :: ustr
  tag :: ustr
  el_role :: "ustr option"
  input_type :: "ustr option"
  el_text :: ustr
  placeholder :: "ustr option"
  aria_label :: "ustr option"
  href :: "ustr option"
  location :: ustr

text \<open>\<open>s or ""\<close> for an optional string.\<close>

definition or_empty :: "ustr option \<Rightarrow> ustr" where
  "or_empty v = (case v of None \<Rightarrow> [] | Some s \<Rightarrow> s)"

section \<open>agent/browser\_agent.py: the text heuristic and the destructive-action gate\<close>

text \<open>
  The six completion phrases of \<open>finish_markers\<close>, in the source's order (Russian for
  "task done", "task fully done", "task wholly done", "task solved", "goal reached",
  "goal of the task reached").
\<close>

definition finish_markers :: "ustr list" where
  "finish_markers =
    [[1079, 1072, 1076, 1072, 1095, 1072, 32, 1074, 1099, 1087, 1086, 1083, 1085, 1077, 1085, 1072],
     [1079, 1072, 1076, 1072, 1095, 1072, 32, 1087, 1086, 1083, 1085, 1086, 1089, 1090, 1100, 1102,
      32, 1074, 1099, 1087, 1086, 1083, 1085, 1077, 1085, 1072],
     [1079, 1072, 1076, 1072, 1095, 1072, 32, 1094, 1077, 1083, 1080, 1082, 1086, 1084, 32, 1074,
      1099, 1087, 1086, 1083, 1085, 1077, 1085, 1072],
     [1079, 1072, 1076, 1072, 1095, 1072, 32, 1088, 1077, 1096, 1077, 1085, 1072],
     [1094, 1077, 1083, 1100, 32, 1076, 1086, 1089, 1090, 1080, 1075, 1085, 1091, 1090, 1072],
     [1094, 1077, 1083, 1100, 32, 1079, 1072, 1076, 1072, 1095, 1080, 32, 1076, 1086, 1089, 1090,
      1080, 1075, 1085, 1091, 1090, 1072]]"

definition should_auto_finish_from_text :: "ustr \<Rightarrow> bool" where
  "should_auto_finish_from_text text =
     (if text = [] then False
      else let t = py_lower text in list_ex (\<lambda>m. py_in m t) finish_markers)"

text \<open>
  \<open>dangerous_keywords\<close>, in the source's order; the Russian entries are written as code
  points (oplatit', oplata, zaplatit'; udalit', udalenie, ochistit', ochistka; otpravit',
  publikovat'; otpisat'sya, arhivirovat').
\<close>

definition dangerous_keywords :: "ustr list" where
  "dangerous_keywords =
    [[1086, 1087, 1083, 1072, 1090, 1080, 1090, 1100],
     [1086, 1087, 1083, 1072, 1090, 1072],
     [1079, 1072, 1087, 1083, 1072, 1090, 1080, 1090, 1100],
     ascii ''pay'', ascii ''payment'', ascii ''checkout'', ascii ''purchase'',
     ascii ''buy now'', ascii ''buy'', ascii ''order'', ascii ''place order'',
     [1091, 1076, 1072, 1083, 1080, 1090, 1100],
     [1091, 1076, 1072, 1083, 1077, 1085, 1080, 1077],
     ascii ''delete'', ascii ''remove'',
     ascii ''trash'',
     [1086, 1095, 1080, 1089, 1090, 1080, 1090, 1100],
     ascii ''clear all'',
     [1086, 1095, 1080, 1089, 1090, 1082, 1072],
     [1086, 1090, 1087, 1088, 1072, 1074, 1080, 1090, 1100],
     ascii ''submit'', ascii ''send'',
     [1087, 1091, 1073, 1083, 1080, 1082, 1086, 1074, 1072, 1090, 1100],
     ascii ''publish'', ascii ''post'',
     ascii ''unsubscribe'',
     [1086, 1090, 1087, 1080, 1089, 1072, 1090, 1100, 1089, 1103],
     [1072, 1088, 1093, 1080, 1074, 1080, 1088, 1086, 1074, 1072, 1090, 1100],
     ascii ''archive'']"

text \<open>
  The label the gate derives (the variable \<open>label\<close> of the source): the lowered text
  argument of \<open>click_text\<close>; for \<open>click_element\<close> the lowered, space-joined text,
  aria-label, placeholder and href of the first element of the last distillation with
  the given id, and the empty string when the id does not convert or no element has it.
\<close>

definition derive_label :: "DistilledElement list \<Rightarrow> ustr \<Rightarrow> pydict \<Rightarrow> ustr" where
  "derive_label last_elements name params =
     (if name = ascii ''click_text''
      then py_lower (py_str (py_or (dict_get params (ascii ''text'')) (PStr [])))
      else if name = ascii ''click_element''
      then (case py_int (dict_get params (ascii ''element_id'')) of
              Inl e \<Rightarrow> []
            | Inr target_id \<Rightarrow>
                (case find (\<lambda>el. el_id el = target_id) last_elements of
                   None \<Rightarrow> []
                 | Some el \<Rightarrow>
                     py_lower (py_join [32]
                       [el_text el, or_empty (aria_label el), or_empty (placeholder el),
                        or_empty (href el)])))
      else [])"

definition is_potentially_destructive ::
  "AgentConfig \<Rightarrow> DistilledElement list \<Rightarrow> ustr \<Rightarrow> pydict \<Rightarrow> bool" where
  "is_potentially_destructive config last_elements name params =
     (if \<not> confirm_actions config then False
      else if name \<notin> {ascii ''click_element'', ascii ''click_text''} then False
      else let label = derive_label last_elements name params
           in if label = [] then False
              else list_ex (\<lambda>kw. py_in kw label) dangerous_keywords)"

section \<open>Conversation turns and completion-service responses\<close>

text \<open>
  The content blocks of a response of the completion service (\<open>block.type\<close> is
  \<open>text\<close>, \<open>tool_use\<close> with id, name and input, or another type the agent skips).
\<close>

datatype block =
    TextBlock ustr
  | ToolUseBlock ustr ustr pydict
  | OtherBlock

record response =
  resp_content :: "block list"
  stop_reason :: ustr

text \<open>
  A turn of the conversation is a dict with a role and a content, which is either a
  string (the task) or a list of dicts of type \<open>text\<close>, \<open>tool_use\<close> or
  \<open>tool_result\<close> (with \<open>tool_use_id\<close> and \<open>content\<close>).
\<close>

datatype role = User | Assistant

datatype mblock =
    MText ustr
  | MToolUse ustr ustr pydict
  | MToolResult ustr ustr

datatype mcontent = CStr ustr | CBlocks "mblock list"

record message =
  msg_role :: role
  msg_content :: mcontent

text \<open>
  Result dicts (envelopes) as association lists in insertion order, over JSON-like
  values, so that an absent key is distinct from a key holding None.
\<close>

datatype jv =
    JNone
  | JBool bool
  | JInt int
  | JStr ustr
  | JList "jv list"
  | JDict "(ustr \<times> jv) list"

type_synonym envelope = "(ustr \<times> jv) list"

fun jv_of_pyval :: "pyval \<Rightarrow> jv" where
  "jv_of_pyval PNone = JNone"
| "jv_of_pyval (PBool b) = JBool b"
| "jv_of_pyval (PInt i) = JInt i"
| "jv_of_pyval (PStr s) = JStr s"

definition jv_of_params :: "pydict \<Rightarrow> jv" where
  "jv_of_params params = JDict (map (\<lambda>(k, v). (k, jv_of_pyval v)) params)"

definition jv_opt :: "ustr option \<Rightarrow> jv" where
  "jv_opt v = (case v of None \<Rightarrow> JNone | Some s \<Rightarrow> JStr s)"

fun jv_truthy :: "jv \<Rightarrow> bool" where
  "jv_truthy JNone = False"
| "jv_truthy (JBool b) = b"
| "jv_truthy (JInt i) = (i \<noteq> 0)"
| "jv_truthy (JStr s) = (s \<noteq> [])"
| "jv_truthy (JList xs) = (xs \<noteq> [])"
| "jv_truthy (JDict kvs) = (kvs \<noteq> [])"

text \<open>\<open>result.get(key)\<close> on an envelope: None when the key is absent.\<close>

definition env_get :: "envelope \<Rightarrow> ustr \<Rightarrow> jv" where
  "env_get d k = (case map_of d k of None \<Rightarrow> JNone | Some v \<Rightarrow> v)"

section \<open>The collaborators of the agent\<close>

text \<open>
  The agent is constructed over an executor and a completion client, and reads the
  operator's console. They are black boxes acting on a world \<open>'w\<close>: every call takes
  the world and returns the new one with either an exception or a value.
  \<^item> \<open>create_message messages\<close>: the completion call of \<open>run\<close>;
  \<^item> \<open>create_summary history prior_summary\<close>: the completion call of the summarizer;
  \<^item> \<open>read_input\<close>: one line of the console (\<open>input()\<close>);
  \<^item> \<open>last_elements\<close>: the executor's last distillation;
  \<^item> \<open>executor\<close>: one method call on the executor, with its coerced arguments;
  \<^item> \<open>json_dumps\<close>: \<open>json.dumps(payload, ensure_ascii=False)\<close>, a pure library function.
\<close>

datatype ex_call =
    AnalyzePage pyval
  | ClickElement int
  | TypeText int pyval pyval
  | ClickAndType int pyval pyval
  | ClickText pyval bool
  | NavigateUrl pyval
  | TakeScreenshot pyval pyval
  | WaitForElement pyval pyval
  | SearchElements pyval int
  | ValidateTaskComplete pyval
  | QueryDom pyval
  | ScrollPage pyval int
  | SwitchToPage int
  | GoBack
  | ExtractText pyval bool int
  | CollectElements pyval int
  | SwitchFrame pyval int
  | CloseModal

record 'w env =
  create_message :: "message list \<Rightarrow> 'w \<Rightarrow> (exn + response) \<times> 'w"
  create_summary :: "message list \<Rightarrow> ustr \<Rightarrow> 'w \<Rightarrow> (exn + response) \<times> 'w"
  read_input :: "'w \<Rightarrow> (exn + ustr) \<times> 'w"
  last_elements :: "'w \<Rightarrow> DistilledElement list"
  executor :: "ex_call \<Rightarrow> 'w \<Rightarrow> (exn + envelope) \<times> 'w"
  json_dumps :: "jv \<Rightarrow> ustr"

text \<open>The mutable fields of the agent: \<open>self.summary\<close>, \<open>self._finished\<close>, and the world.\<close>

record 'w agent =
  summary :: ustr
  finished :: bool
  world :: 'w

section \<open>agent/browser\_agent.py: the History Manager\<close>

definition serialize_blocks :: "block list \<Rightarrow> mblock list" where
  "serialize_blocks blocks =
     concat (map (\<lambda>b. case b of
                         TextBlock t \<Rightarrow> [MText t]
                       | ToolUseBlock i n inp \<Rightarrow> [MToolUse i n inp]
                       | OtherBlock \<Rightarrow> []) blocks)"

definition truncate_content :: "ustr \<Rightarrow> nat \<Rightarrow> ustr" where
  "truncate_content content max_len =
     (if length content \<le> max_len then content
      else take max_len content @ ascii ''...<truncated>'')"

text \<open>The texts of the text blocks of a response (\<open>parts\<close> in the source).\<close>

definition text_parts :: "block list \<Rightarrow> ustr list" where
  "text_parts blocks =
     concat (map (\<lambda>b. case b of TextBlock t \<Rightarrow> [t] | _ \<Rightarrow> []) blocks)"

text \<open>
  \<open>_summarize_history\<close>: every exception of the completion call is caught and the prior
  summary returned; an empty new summary falls back to the prior one as well.
\<close>

definition summarize_history ::
  "'w env \<Rightarrow> message list \<Rightarrow> ustr \<Rightarrow> 'w \<Rightarrow> ustr \<times> 'w" where
  "summarize_history E history prior_summary w =
     (case create_summary E history prior_summary w of
        (Inl e, w') \<Rightarrow> (prior_summary, w')
      | (Inr resp, w') \<Rightarrow>
          (let new_summary = py_strip (py_join [10] (text_parts (resp_content resp)))
           in (if new_summary \<noteq> [] then new_summary else prior_summary, w')))"

text \<open>The two tests of the repair pass on a turn.\<close>

definition is_tool_result_msg :: "message \<Rightarrow> bool" where
  "is_tool_result_msg msg =
     (case msg_content msg of
        CStr s \<Rightarrow> False
      | CBlocks blks \<Rightarrow> list_ex (\<lambda>b. case b of MToolResult i c \<Rightarrow> True | _ \<Rightarrow> False) blks)"

definition has_tool_use :: "message \<Rightarrow> bool" where
  "has_tool_use msg =
     (case msg_content msg of
        CStr s \<Rightarrow> False
      | CBlocks blks \<Rightarrow> list_ex (\<lambda>b. case b of MToolUse i n inp \<Rightarrow> True | _ \<Rightarrow> False) blks)"

text \<open>
  The repair loop over \<open>pruned\<close>, with \<open>prev\<close> the last turn kept so far: a tool-result
  turn is skipped unless \<open>prev\<close> is an assistant turn holding a tool invocation.
\<close>

fun clean_turns :: "message option \<Rightarrow> message list \<Rightarrow> message list" where
  "clean_turns prev [] = []"
| "clean_turns prev (msg # msgs) =
     (if is_tool_result_msg msg \<and>
         (case prev of
            None \<Rightarrow> True
          | Some p \<Rightarrow> msg_role p \<noteq> Assistant \<or> \<not> has_tool_use p)
      then clean_turns prev msgs
      else msg # clean_turns (Some msg) msgs)"

text \<open>The summary turn: an assistant text block, the Russian heading "[Svodka]" and a newline before the summary.\<close>

definition summary_block :: "ustr \<Rightarrow> message" where
  "summary_block s =
     \<lparr>msg_role = Assistant,
      msg_content = CBlocks [MText ([91, 1057, 1074, 1086, 1076, 1082, 1072, 93, 10] @ s)]\<rparr>"

definition window_of :: "AgentConfig \<Rightarrow> nat" where
  "window_of config = nat (max 3 (history_window config))"

definition apply_history_window ::
  "AgentConfig \<Rightarrow> 'w env \<Rightarrow> message list \<Rightarrow> 'w agent \<Rightarrow> message list \<times> 'w agent" where
  "apply_history_window config E messages st =
     (let window = window_of config in
      if length messages \<le> window then (messages, st)
      else
        let first = hd messages; rest = tl messages in
        if length rest \<le> window then (messages, st)
        else
          let older = take (length rest - window) rest;
              recent = drop (length rest - window) rest;
              (new_summary, w') = summarize_history E older (summary st) (world st);
              st' = st\<lparr>summary := new_summary, world := w'\<rparr>;
              pruned = [first, summary_block new_summary] @ recent
          in (clean_turns None pruned, st'))"

section \<open>agent/browser\_agent.py: the dispatcher\<close>

text \<open>Sequencing of computations that may raise.\<close>

definition bind_exn :: "exn + 'a \<Rightarrow> ('a \<Rightarrow> exn + 'b) \<Rightarrow> exn + 'b" where
  "bind_exn m f = (case m of Inl e \<Rightarrow> Inl e | Inr v \<Rightarrow> f v)"

text \<open>\<open>int(params[key])\<close> and \<open>int(params.get(key, default))\<close>.\<close>

definition req_int :: "pydict \<Rightarrow> ustr \<Rightarrow> exn + int" where
  "req_int params k = bind_exn (dict_item params k) py_int"

definition opt_int :: "pydict \<Rightarrow> ustr \<Rightarrow> int \<Rightarrow> exn + int" where
  "opt_int params k dflt = py_int (dict_get_default params k (PInt dflt))"

text \<open>
  A method call on the executor once its arguments are evaluated: an exception of the
  argument expressions propagates, otherwise the executor runs.
\<close>

definition call_executor ::
  "'w env \<Rightarrow> exn + ex_call \<Rightarrow> 'w agent \<Rightarrow> (exn + envelope) \<times> 'w agent" where
  "call_executor E args st =
     (case args of
        Inl e \<Rightarrow> (Inl e, st)
      | Inr c \<Rightarrow> (case executor E c (world st) of (r, w') \<Rightarrow> (r, st\<lparr>world := w'\<rparr>)))"

text \<open>The answers that confirm a gated action: y, yes, and the Russian "d", "da".\<close>

definition affirmative_answers :: "ustr list" where
  "affirmative_answers = [ascii ''y'', ascii ''yes'', [1076], [1076, 1072]]"

definition cancelled_envelope :: "ustr \<Rightarrow> pydict \<Rightarrow> envelope" where
  "cancelled_envelope name params =
     [(ascii ''success'', JBool False),
      (ascii ''action'', JStr name),
      (ascii ''message'', JStr (ascii ''Action cancelled by user'')),
      (ascii ''error_type'', JStr (ascii ''UserCancelled'')),
      (ascii ''data'', JDict [(ascii ''params'', jv_of_params params)])]"

definition finish_envelope :: "pyval \<Rightarrow> envelope" where
  "finish_envelope summ =
     [(ascii ''success'', JBool True),
      (ascii ''action'', JStr (ascii ''finish_task'')),
      (ascii ''message'', JStr (ascii ''Task finished'')),
      (ascii ''data'', JDict [(ascii ''summary'', jv_of_pyval summ)])]"

definition unknown_tool_result :: "ustr \<Rightarrow> envelope" where
  "unknown_tool_result name =
     [(ascii ''error'', JStr (ascii ''Unknown tool '' @ [39] @ name @ [39]))]"

text \<open>
  The chain of \<open>if name == ...\<close> of \<open>_dispatch_tool\<close>, in the source's order. The
  \<open>float(...)\<close> of \<open>wait_for_element\<close> is left to the executor call, which receives the
  raw timeout value.
\<close>

definition dispatch_by_name ::
  "'w env \<Rightarrow> ustr \<Rightarrow> pydict \<Rightarrow> 'w agent \<Rightarrow> (exn + envelope) \<times> 'w agent" where
  "dispatch_by_name E name params st =
    (if name = ascii ''analyze_page'' then
       call_executor E
         (Inr (AnalyzePage (dict_get_default params (ascii ''response_format'') (PStr (ascii ''concise''))))) st
     else if name = ascii ''click_element'' then
       call_executor E
         (bind_exn (req_int params (ascii ''element_id'')) (\<lambda>i. Inr (ClickElement i))) st
     else if name = ascii ''type_text'' then
       call_executor E
         (bind_exn (req_int params (ascii ''element_id'')) (\<lambda>i.
          bind_exn (dict_item params (ascii ''text'')) (\<lambda>t.
          Inr (TypeText i t (dict_get_default params (ascii ''press_enter'') (PBool False)))))) st
     else if name = ascii ''click_and_type'' then
       call_executor E
         (bind_exn (req_int params (ascii ''element_id'')) (\<lambda>i.
          bind_exn (dict_item params (ascii ''text'')) (\<lambda>t.
          Inr (ClickAndType i t (dict_get_default params (ascii ''press_enter'') (PBool True)))))) st
     else if name = ascii ''click_text'' then
       call_executor E
         (bind_exn (dict_item params (ascii ''text'')) (\<lambda>t.
          Inr (ClickText t (py_truthy (dict_get_default params (ascii ''exact'') (PBool False)))))) st
     else if name = ascii ''navigate_url'' then
       call_executor E
         (bind_exn (dict_item params (ascii ''url'')) (\<lambda>u. Inr (NavigateUrl u))) st
     else if name = ascii ''take_screenshot'' then
       call_executor E
         (Inr (TakeScreenshot (dict_get params (ascii ''label''))
                (dict_get_default params (ascii ''embed_b64'') (PBool False)))) st
     else if name = ascii ''wait_for_element'' then
       call_executor E
         (bind_exn (dict_item params (ascii ''query'')) (\<lambda>q.
          Inr (WaitForElement q (dict_get_default params (ascii ''timeout'') (PInt 5))))) st
     else if name = ascii ''search_elements'' then
       call_executor E
         (bind_exn (dict_item params (ascii ''query'')) (\<lambda>q.
          bind_exn (opt_int params (ascii ''max_results'') 5) (\<lambda>n.
          Inr (SearchElements q n)))) st
     else if name = ascii ''validate_task_complete'' then
       call_executor E (Inr (ValidateTaskComplete (dict_get params (ascii ''hint'')))) st
     else if name = ascii ''query_dom'' then
       call_executor E
         (bind_exn (dict_item params (ascii ''query'')) (\<lambda>q. Inr (QueryDom q))) st
     else if name = ascii ''finish_task'' then
       (Inr (finish_envelope (dict_get_default params (ascii ''summary'') (PStr []))),
        st\<lparr>finished := True\<rparr>)
     else if name = ascii ''scroll_page'' then
       call_executor E
         (bind_exn (opt_int params (ascii ''amount'') 800) (\<lambda>n.
          Inr (ScrollPage (dict_get_default params (ascii ''direction'') (PStr (ascii ''down''))) n))) st
     else if name = ascii ''switch_to_page'' then
       call_executor E
         (bind_exn (opt_int params (ascii ''index'') (- 1)) (\<lambda>n. Inr (SwitchToPage n))) st
     else if name = ascii ''go_back'' then
       call_executor E (Inr GoBack) st
     else if name = ascii ''extract_text'' then
       call_executor E
         (bind_exn (dict_item params (ascii ''selector'')) (\<lambda>sel.
          bind_exn (opt_int params (ascii ''max_chars'') 4000) (\<lambda>n.
          Inr (ExtractText sel
                 (py_truthy (dict_get_default params (ascii ''all_matches'') (PBool False))) n)))) st
     else if name = ascii ''collect_elements'' then
       call_executor E
         (bind_exn (dict_item params (ascii ''selector'')) (\<lambda>sel.
          bind_exn (opt_int params (ascii ''limit'') 20) (\<lambda>n.
          Inr (CollectElements sel n)))) st
     else if name = ascii ''switch_frame'' then
       call_executor E
         (bind_exn (opt_int params (ascii ''index'') 0) (\<lambda>n.
          Inr (SwitchFrame (dict_get params (ascii ''selector'')) n))) st
     else if name = ascii ''close_modal'' then
       call_executor E (Inr CloseModal) st
     else (Inr (unknown_tool_result name), st))"

text \<open>
  \<open>_dispatch_tool\<close>: a gated action first asks the operator and is cancelled unless the
  stripped, lowered answer is affirmative; then the chain above runs.
\<close>

definition dispatch_tool ::
  "AgentConfig \<Rightarrow> 'w env \<Rightarrow> ustr \<Rightarrow> pydict \<Rightarrow> 'w agent \<Rightarrow> (exn + envelope) \<times> 'w agent" where
  "dispatch_tool config E name params st =
     (if is_potentially_destructive config (last_elements E (world st)) name params
      then (case read_input E (world st) of
              (Inl e, w') \<Rightarrow> (Inl e, st\<lparr>world := w'\<rparr>)
            | (Inr line, w') \<Rightarrow>
                (if py_lower (py_strip line) \<notin> set affirmative_answers
                 then (Inr (cancelled_envelope name params), st\<lparr>world := w'\<rparr>)
                 else dispatch_by_name E name params (st\<lparr>world := w'\<rparr>)))
      else dispatch_by_name E name params st)"

text \<open>The names the chain knows: the dispatch table.\<close>

definition dispatch_table :: "ustr list" where
  "dispatch_table =
     [ascii ''analyze_page'', ascii ''click_element'', ascii ''type_text'',
      ascii ''click_and_type'', ascii ''click_text'', ascii ''navigate_url'',
      ascii ''take_screenshot'', ascii ''wait_for_element'', ascii ''search_elements'',
      ascii ''validate_task_complete'', ascii ''query_dom'', ascii ''finish_task'',
      ascii ''scroll_page'', ascii ''switch_to_page'', ascii ''go_back'',
      ascii ''extract_text'', ascii ''collect_elements'', ascii ''switch_frame'',
      ascii ''close_modal'']"

section \<open>agent/browser\_agent.py: the agent loop\<close>

text \<open>
  How \<open>run\<close> ends, with the iteration it ends in: by an auto-finish text (with the
  summary stored), by \<open>finish_task\<close> (with its result), by a natural end of turn
  (\<open>break\<close>), by the \<open>else\<close> of the loop, which logs
  "Max iterations reached without explicit completion.", or by an exception that
  nothing catches.
\<close>

datatype outcome =
    FinishedByText nat ustr
  | FinishedByTool nat envelope
  | EndTurn nat
  | MaxIterationsReached
  | Raised nat exn

datatype 'w blocks_result =
    BlocksDone "mblock list" "'w agent"
  | BlocksReturn outcome "'w agent"

text \<open>
  The payload fed back for a result: a screenshot result with a non-empty
  \<open>base64_png\<close> in its data dict loses that entry.
\<close>

definition strip_payload :: "ustr \<Rightarrow> envelope \<Rightarrow> envelope" where
  "strip_payload name result =
     (case env_get result (ascii ''data'') of
        JDict d \<Rightarrow>
          (if name = ascii ''take_screenshot'' \<and> jv_truthy (env_get d (ascii ''base64_png''))
           then map (\<lambda>(k, v). if k = ascii ''data''
                               then (k, JDict (filter (\<lambda>(k', v'). k' \<noteq> ascii ''base64_png'') d))
                               else (k, v)) result
           else result)
      | _ \<Rightarrow> result)"

text \<open>The loop over \<open>response.content\<close>, with \<open>tool_results\<close> as accumulator.\<close>

fun process_blocks ::
  "AgentConfig \<Rightarrow> 'w env \<Rightarrow> nat \<Rightarrow> block list \<Rightarrow> mblock list \<Rightarrow> 'w agent \<Rightarrow> 'w blocks_result" where
  "process_blocks config E i [] tool_results st = BlocksDone tool_results st"
| "process_blocks config E i (TextBlock t # bs) tool_results st =
     (if should_auto_finish_from_text t
      then (let s = truncate_content (py_strip t) 800
            in BlocksReturn (FinishedByText i s) (st\<lparr>summary := s\<rparr>))
      else process_blocks config E i bs tool_results st)"
| "process_blocks config E i (ToolUseBlock bid name params # bs) tool_results st =
     (case dispatch_tool config E name params st of
        (Inl e, st') \<Rightarrow> BlocksReturn (Raised i e) st'
      | (Inr result, st') \<Rightarrow>
          (if name = ascii ''finish_task''
           then BlocksReturn (FinishedByTool i result) st'
           else process_blocks config E i bs
                  (tool_results @
                   [MToolResult bid
                      (truncate_content (json_dumps E (JDict (strip_payload name result))) 4000)])
                  st'))"
| "process_blocks config E i (OtherBlock # bs) tool_results st =
     process_blocks config E i bs tool_results st"

text \<open>The \<open>for\<close> loop of \<open>run\<close> over the remaining iteration numbers.\<close>

fun run_iters ::
  "AgentConfig \<Rightarrow> 'w env \<Rightarrow> nat list \<Rightarrow> message list \<Rightarrow> 'w agent
     \<Rightarrow> outcome \<times> message list \<times> 'w agent" where
  "run_iters config E [] messages st = (MaxIterationsReached, messages, st)"
| "run_iters config E (i # its) messages st =
     (case create_message E messages (world st) of
        (Inl e, w') \<Rightarrow> (Raised i e, messages, st\<lparr>world := w'\<rparr>)
      | (Inr resp, w') \<Rightarrow>
          (let messages1 = messages @
                 [\<lparr>msg_role = Assistant,
                   msg_content = CBlocks (serialize_blocks (resp_content resp))\<rparr>]
           in case process_blocks config E i (resp_content resp) [] (st\<lparr>world := w'\<rparr>) of
                BlocksReturn out st' \<Rightarrow> (out, messages1, st')
              | BlocksDone tool_results st' \<Rightarrow>
                  (if tool_results \<noteq> []
                   then (case apply_history_window config E
                                 (messages1 @ [\<lparr>msg_role = User, msg_content = CBlocks tool_results\<rparr>])
                                 st' of
                           (messages2, st'') \<Rightarrow> run_iters config E its messages2 st'')
                   else if stop_reason resp = ascii ''end_turn''
                   then (EndTurn i, messages1, st')
                   else (case apply_history_window config E messages1 st' of
                           (messages2, st'') \<Rightarrow> run_iters config E its messages2 st''))))"

definition run :: "AgentConfig \<Rightarrow> 'w env \<Rightarrow> 'w \<Rightarrow> outcome \<times> message list \<times> 'w agent" where
  "run config E w =
     run_iters config E [1..<nat (max_iterations config + 1)]
       [\<lparr>msg_role = User, msg_content = CStr (task config)\<rparr>]
       \<lparr>summary = [], finished = False, world = w\<rparr>"

section \<open>infrastructure/tools.py: the executor\<close>

text \<open>\<open>_result\<close>: the uniform envelope, seven keys in this order.\<close>

definition result ::
  "bool \<Rightarrow> ustr \<Rightarrow> ustr \<Rightarrow> ustr option \<Rightarrow> ustr option \<Rightarrow> ustr option \<Rightarrow> jv \<Rightarrow> envelope" where
  "result success action message error_type error suggestion data =
     [(ascii ''success'', JBool success),
      (ascii ''action'', JStr action),
      (ascii ''message'', JStr message),
      (ascii ''error_type'', jv_opt error_type),
      (ascii ''error'', jv_opt error),
      (ascii ''suggestion'', jv_opt suggestion),
      (ascii ''data'', data)]"

text \<open>
  What the distillation script reads off one DOM node: the value of \<open>isVisible(el)\<close>
  and of each expression it stores (lowered tag name, role attribute, input type,
  trimmed text cut to 120, placeholder, aria-label, href, rounded position).
\<close>

record dom_node =
  visible :: bool
  node_tag :: ustr
  node_role :: "ustr option"
  node_input_type :: "ustr option"
  node_text :: ustr
  node_placeholder :: "ustr option"
  node_aria_label :: "ustr option"
  node_href :: "ustr option"
  node_location :: ustr

text \<open>One entry of the list the script returns.\<close>

record raw_element =
  raw_agentId :: ustr
  raw_tag :: ustr
  raw_role :: "ustr option"
  raw_inputType :: "ustr option"
  raw_text :: ustr
  raw_placeholder :: "ustr option"
  raw_ariaLabel :: "ustr option"
  raw_href :: "ustr option"
  raw_location :: ustr

text \<open>
  The loop of the script over \<open>allNodes\<close>: invisible nodes are skipped, a visible one
  takes the marker \<open>stamp-id\<close> and is pushed, and the loop breaks once 200 are pushed.
\<close>

fun distill_loop :: "ustr \<Rightarrow> nat \<Rightarrow> raw_element list \<Rightarrow> dom_node list \<Rightarrow> raw_element list" where
  "distill_loop stamp n distilled [] = distilled"
| "distill_loop stamp n distilled (el # els) =
     (if \<not> visible el then distill_loop stamp n distilled els
      else
        let distilled' = distilled @
              [\<lparr>raw_agentId = stamp @ [45] @ str_of_nat n,
                raw_tag = node_tag el,
                raw_role = node_role el,
                raw_inputType = node_input_type el,
                raw_text = node_text el,
                raw_placeholder = node_placeholder el,
                raw_ariaLabel = node_aria_label el,
                raw_href = node_href el,
                raw_location = node_location el\<rparr>]
        in if length distilled' \<ge> 200 then distilled'
           else distill_loop stamp (n + 1) distilled' els)"

text \<open>
  The script: \<open>dialogs\<close> holds for each dialog on the page its matching descendants,
  \<open>page_nodes\<close> are the nodes the selector matched; with a dialog present its nodes
  come first.
\<close>

definition distill_script :: "ustr \<Rightarrow> dom_node list list \<Rightarrow> dom_node list \<Rightarrow> raw_element list" where
  "distill_script stamp dialogs page_nodes =
     (let dialog_nodes = concat dialogs;
          all_nodes = (if dialogs \<noteq> [] then dialog_nodes @ page_nodes else page_nodes)
      in distill_loop stamp 0 [] all_nodes)"

text \<open>
  The browser driver as a black box acting on a page world \<open>'p\<close>:
  \<^item> \<open>sync_active_page\<close>: the switch to the newest tab;
  \<^item> \<open>now_ms\<close>: \<open>int(time.time() * 1000)\<close>;
  \<^item> \<open>page_ready\<close>: the session has a page (the \<open>page\<close> property raises otherwise);
  \<^item> \<open>select_nodes stamp\<close>: \<open>eval_on_selector_all\<close>, giving the nodes the script
    runs over (the world it returns carries the markers the script wrote), or raising;
  \<^item> \<open>page_title\<close>, \<open>page_url\<close>;
  \<^item> \<open>locator_count marker\<close>: the number of nodes carrying the marker;
  \<^item> \<open>click_marker marker\<close>: click of the first node carrying the marker;
  \<^item> \<open>click_by_text text\<close>: click of the first node with the visible text.
\<close>

record 'p page_iface =
  sync_active_page :: "'p \<Rightarrow> 'p"
  now_ms :: "'p \<Rightarrow> int"
  page_ready :: "'p \<Rightarrow> bool"
  select_nodes :: "ustr \<Rightarrow> 'p \<Rightarrow> (exn + dom_node list list \<times> dom_node list) \<times> 'p"
  page_title :: "'p \<Rightarrow> exn + ustr"
  page_url :: "'p \<Rightarrow> ustr"
  locator_count :: "ustr \<Rightarrow> 'p \<Rightarrow> exn + nat"
  click_marker :: "ustr \<Rightarrow> 'p \<Rightarrow> (exn + unit) \<times> 'p"
  click_by_text :: "ustr \<Rightarrow> 'p \<Rightarrow> (exn + unit) \<times> 'p"

text \<open>
  The executor: its last distillation and the page world, with a record of every click
  issued to the driver (not a field of the source; it makes "no click happened"
  statable).
\<close>

datatype click_event = MarkerClick ustr | TextClick ustr

record 'p tool_executor =
  ex_last_elements :: "DistilledElement list"
  ex_page :: 'p
  ex_clicks :: "click_event list"

definition get_element :: "'p tool_executor \<Rightarrow> int \<Rightarrow> DistilledElement option" where
  "get_element ex element_id = find (\<lambda>el. el_id el = element_id) (ex_last_elements ex)"

text \<open>The loop \<open>for idx, raw in enumerate(raw_elements)\<close>.\<close>

definition to_elements :: "raw_element list \<Rightarrow> DistilledElement list" where
  "to_elements raws =
     map (\<lambda>(idx, raw).
            \<lparr>el_id = int idx,
             agent_id = raw_agentId raw,
             tag = raw_tag raw,
             el_role = raw_role raw,
             input_type = raw_inputType raw,
             el_text = raw_text raw,
             placeholder = raw_placeholder raw,
             aria_label = raw_ariaLabel raw,
             href = raw_href raw,
             location = raw_location raw\<rparr>)
         (enumerate 0 raws)"

text \<open>\<open>a or b\<close> on optional strings, and the two shapes of a listed element.\<close>

definition or_else :: "ustr option \<Rightarrow> ustr \<Rightarrow> ustr" where
  "or_else v w = (case v of None \<Rightarrow> w | Some s \<Rightarrow> if s \<noteq> [] then s else w)"

definition opt_truthy :: "ustr option \<Rightarrow> bool" where
  "opt_truthy v = (case v of None \<Rightarrow> False | Some s \<Rightarrow> s \<noteq> [])"

definition concise_entry :: "DistilledElement \<Rightarrow> jv" where
  "concise_entry el =
     JDict [(ascii ''id'', JInt (el_id el)),
            (ascii ''type'', JStr (or_else (input_type el) (tag el))),
            (ascii ''text'',
               if el_text el \<noteq> [] then JStr (el_text el)
               else if opt_truthy (aria_label el) then jv_opt (aria_label el)
               else jv_opt (placeholder el)),
            (ascii ''location'', JStr (location el))]"

definition detailed_entry :: "DistilledElement \<Rightarrow> jv" where
  "detailed_entry el =
     JDict [(ascii ''id'', JInt (el_id el)),
            (ascii ''type'', JStr (or_else (input_type el) (tag el))),
            (ascii ''text'', JStr (el_text el)),
            (ascii ''placeholder'', jv_opt (placeholder el)),
            (ascii ''aria_label'', jv_opt (aria_label el)),
            (ascii ''href'', jv_opt (href el)),
            (ascii ''location'', JStr (location el))]"

text \<open>
  \<open>analyze_page\<close>. A missing page makes the \<open>page\<close> property raise inside the
  \<open>try\<close>, which gives the AnalysisError envelope with that message; the title is read
  after \<open>last_elements\<close> is replaced and outside the \<open>try\<close>, so its exception
  leaves the method.
\<close>

definition analyze_page ::
  "'p page_iface \<Rightarrow> 'p tool_executor \<Rightarrow> pyval \<Rightarrow> (exn + envelope) \<times> 'p tool_executor" where
  "analyze_page P ex response_format =
     (let p0 = sync_active_page P (ex_page ex);
          stamp = str_of_int (now_ms P p0)
      in if \<not> page_ready P p0
         then (Inr (result False (ascii ''analyze_page'') (ascii ''Failed to analyze page'')
                      (Some (ascii ''AnalysisError''))
                      (Some (ascii ''Browser page not initialized''))
                      (Some (ascii ''Try: 1) wait_for_element(); 2) close_modal(); 3) analyze_page() again.''))
                      JNone),
               ex\<lparr>ex_page := p0\<rparr>)
         else
           (case select_nodes P stamp p0 of
              (Inl exc, p1) \<Rightarrow>
                (Inr (result False (ascii ''analyze_page'') (ascii ''Failed to analyze page'')
                        (Some (ascii ''AnalysisError''))
                        (Some (exn_str exc))
                        (Some (ascii ''Try: 1) wait_for_element(); 2) close_modal(); 3) analyze_page() again.''))
                        JNone),
                 ex\<lparr>ex_page := p1\<rparr>)
            | (Inr (dialogs, page_nodes), p1) \<Rightarrow>
                (let elements = to_elements (distill_script stamp dialogs page_nodes);
                     ex' = ex\<lparr>ex_last_elements := elements, ex_page := p1\<rparr>;
                     condensed = (if response_format = PStr (ascii ''concise'')
                                  then map concise_entry (take 20 elements)
                                  else map detailed_entry elements)
                 in case page_title P p1 of
                      Inl exc \<Rightarrow> (Inl exc, ex')
                    | Inr title \<Rightarrow>
                        (Inr (result True (ascii ''analyze_page'')
                                (ascii ''Distilled '' @ str_of_nat (length elements) @ ascii '' elements'')
                                None None None
                                (JDict [(ascii ''page_title'', JStr title),
                                        (ascii ''url'', JStr (page_url P p1)),
                                        (ascii ''elements'', JList condensed),
                                        (ascii ''note'',
                                           JStr (str_of_nat (length elements) @
                                                 ascii '' elements distilled. Use click_element(id) / type_text(id, text).''))])),
                         ex'))))"

text \<open>\<open>_ok\<close> of \<open>click_element\<close>: the success envelope, after the switch to the newest tab.\<close>

definition click_ok ::
  "'p page_iface \<Rightarrow> 'p tool_executor \<Rightarrow> int \<Rightarrow> ustr \<Rightarrow> envelope \<times> 'p tool_executor" where
  "click_ok P ex element_id msg_suffix =
     (let p' = sync_active_page P (ex_page ex)
      in (result True (ascii ''click_element'')
            (ascii ''Clicked element '' @ str_of_int element_id @ msg_suffix)
            None None None
            (JDict [(ascii ''url'', JStr (page_url P p')), (ascii ''element_id'', JInt element_id)]),
          ex\<lparr>ex_page := p'\<rparr>))"

text \<open>The two driver clicks, each recorded.\<close>

definition do_click_marker ::
  "'p page_iface \<Rightarrow> 'p tool_executor \<Rightarrow> ustr \<Rightarrow> (exn + unit) \<times> 'p tool_executor" where
  "do_click_marker P ex marker =
     (case click_marker P marker (ex_page ex) of
        (r, p') \<Rightarrow> (r, ex\<lparr>ex_page := p', ex_clicks := ex_clicks ex @ [MarkerClick marker]\<rparr>))"

definition do_click_by_text ::
  "'p page_iface \<Rightarrow> 'p tool_executor \<Rightarrow> ustr \<Rightarrow> (exn + unit) \<times> 'p tool_executor" where
  "do_click_by_text P ex text =
     (case click_by_text P text (ex_page ex) of
        (r, p') \<Rightarrow> (r, ex\<lparr>ex_page := p', ex_clicks := ex_clicks ex @ [TextClick text]\<rparr>))"

text \<open>
  The body of the \<open>try\<close> of \<open>click_element\<close>: \<open>Inl\<close> is an exception that reaches the
  handlers, \<open>Inr\<close> a returned envelope.
\<close>

definition click_try ::
  "'p page_iface \<Rightarrow> 'p tool_executor \<Rightarrow> DistilledElement \<Rightarrow> int
     \<Rightarrow> (exn + envelope) \<times> 'p tool_executor" where
  "click_try P ex element element_id =
     (case locator_count P (agent_id element) (ex_page ex) of
        Inl exc \<Rightarrow> (Inl exc, ex)
      | Inr n \<Rightarrow>
          if n = 0 then
            (case analyze_page P ex (PStr (ascii ''detailed'')) of
               (Inl exc, ex1) \<Rightarrow> (Inl exc, ex1)
             | (Inr snapshot, ex1) \<Rightarrow>
                 if \<not> jv_truthy (env_get snapshot (ascii ''success''))
                 then (Inr (result False (ascii ''click_element'')
                              (ascii ''Element disappeared and re-analyze_page() failed'')
                              (Some (ascii ''ClickError'')) None
                              (Some (ascii ''Try analyze_page() manually and use search_elements()/click_text().''))
                              JNone),
                       ex1)
                 else
                   (let text = py_strip (el_text element) in
                    if text \<noteq> [] then
                      (case find (\<lambda>el. py_strip (el_text el) = text) (ex_last_elements ex1) of
                         Some el \<Rightarrow>
                           (case do_click_marker P ex1 (agent_id el) of
                              (Inl exc, ex2) \<Rightarrow> (Inl exc, ex2)
                            | (Inr u, ex2) \<Rightarrow>
                                (case click_ok P ex2 element_id (ascii '' (via refreshed agent-id)'') of
                                   (env, ex3) \<Rightarrow> (Inr env, ex3)))
                       | None \<Rightarrow>
                           (case do_click_by_text P ex1 text of
                              (Inl exc2, ex2) \<Rightarrow>
                                (Inr (result False (ascii ''click_element'')
                                        (ascii ''Failed to click element by text '' @ [39] @ text @ [39])
                                        (Some (ascii ''ClickError''))
                                        (Some (exn_str exc2))
                                        (Some (ascii ''Try scroll_page()/close_modal(), then analyze_page() and click_text() manually.''))
                                        JNone),
                                 ex2)
                            | (Inr u, ex2) \<Rightarrow>
                                (case click_ok P ex2 element_id (ascii '' (via text fallback)'') of
                                   (env, ex3) \<Rightarrow> (Inr env, ex3))))
                    else (Inr (result False (ascii ''click_element'')
                                 (ascii ''Element disappeared and has no stable text to match'')
                                 (Some (ascii ''ElementNotFound'')) None
                                 (Some (ascii ''Run analyze_page() again and choose element by new ID.''))
                                 JNone),
                          ex1)))
          else
            (case do_click_marker P ex (agent_id element) of
               (Inl exc, ex1) \<Rightarrow> (Inl exc, ex1)
             | (Inr u, ex1) \<Rightarrow>
                 (case click_ok P ex1 element_id [] of (env, ex2) \<Rightarrow> (Inr env, ex2))))"

definition is_timeout :: "exn \<Rightarrow> bool" where
  "is_timeout exc = (case exc of TimeoutError m \<Rightarrow> True | _ \<Rightarrow> False)"

text \<open>
  \<open>click_element\<close>: an unknown id fails at once; the locator is built outside the
  \<open>try\<close>, so a missing page raises; an exception of the body is handled by kind.
\<close>

definition click_element ::
  "'p page_iface \<Rightarrow> 'p tool_executor \<Rightarrow> int \<Rightarrow> (exn + envelope) \<times> 'p tool_executor" where
  "click_element P ex element_id =
     (case get_element ex element_id of
        None \<Rightarrow>
          (Inr (result False (ascii ''click_element'') (ascii ''Unknown element ID'')
                  (Some (ascii ''ElementNotFound''))
                  (Some (ascii ''Unknown element ID. Call analyze_page() first.''))
                  (Some (ascii ''Call analyze_page() to refresh IDs, then retry with the new ID.''))
                  JNone),
           ex)
      | Some element \<Rightarrow>
          if \<not> page_ready P (ex_page ex)
          then (Inl (RuntimeError (ascii ''Browser page not initialized'')), ex)
          else
            (case click_try P ex element element_id of
               (Inr env, ex1) \<Rightarrow> (Inr env, ex1)
             | (Inl exc, ex1) \<Rightarrow>
                 if is_timeout exc then
                   (let text = py_strip (el_text element) in
                    if text \<noteq> [] then
                      (case do_click_by_text P ex1 text of
                         (Inl exc2, ex2) \<Rightarrow>
                           (Inr (result False (ascii ''click_element'')
                                   (ascii ''Timeout clicking element (id & text fallback failed)'')
                                   (Some (ascii ''Timeout''))
                                   (Some (exn_str exc @ ascii ''; text_fallback_error='' @ exn_str exc2))
                                   (Some (ascii ''Try scroll_page()/close_modal(), then analyze_page() and click_text().''))
                                   JNone),
                            ex2)
                       | (Inr u, ex2) \<Rightarrow>
                           (case click_ok P ex2 element_id (ascii '' (via text fallback after timeout)'') of
                              (env, ex3) \<Rightarrow> (Inr env, ex3)))
                    else (Inr (result False (ascii ''click_element'') (ascii ''Timeout clicking element'')
                                 (Some (ascii ''Timeout''))
                                 (Some (exn_str exc))
                                 (Some (ascii ''Try: 1) scroll_page(); 2) close_modal(); 3) analyze_page() and use click_text().''))
                                 JNone),
                          ex1))
                 else (Inr (result False (ascii ''click_element'') (ascii ''Failed to click element'')
                              (Some (ascii ''ClickError''))
                              (Some (exn_str exc))
                              (Some (ascii ''Try: 1) scroll_page(); 2) close_modal(); 3) analyze_page() and retry click_element.''))
                              JNone),
                       ex1)))"

section \<open>Notions the properties are stated with\<close>

text \<open>The run ended in iteration \<open>i\<close> with the task reported finished.\<close>

definition finished_at :: "nat \<Rightarrow> outcome \<Rightarrow> bool" where
  "finished_at i out =
     (case out of
        FinishedByText j s \<Rightarrow> j = i
      | FinishedByTool j r \<Rightarrow> j = i
      | _ \<Rightarrow> False)"




text \<open>A call returned an envelope whose \<open>success\<close> is true.\<close>

definition succeeded :: "exn + envelope \<Rightarrow> bool" where
  "succeeded r = (case r of Inl e \<Rightarrow> False | Inr env \<Rightarrow> env_get env (ascii ''success'') = JBool True)"

section \<open>Concrete inputs\<close>

text \<open>Configurations and elements the examples below are evaluated on.\<close>

definition cfg_on :: AgentConfig where
  "cfg_on = \<lparr>model = [], task = [], max_iterations = 50, confirm_actions = True, history_window = 7\<rparr>"

definition checkout_button :: DistilledElement where
  "checkout_button = \<lparr>el_id = 0, agent_id = ascii ''1-0'', tag = ascii ''button'', el_role = None,
     input_type = None, el_text = ascii ''Proceed to Checkout'', placeholder = None,
     aria_label = None, href = None, location = ascii ''10x10''\<rparr>"

text \<open>
  A scripted environment over a trivial world: the completion service always answers
  \<open>resp\<close>, the summarizer call always ends as \<open>summ\<close>, the operator always types
  \<open>line\<close>, the last distillation is \<open>els\<close>, and every executor call succeeds.
\<close>

definition scripted_env ::
  "response \<Rightarrow> exn + response \<Rightarrow> ustr \<Rightarrow> DistilledElement list \<Rightarrow> unit env" where
  "scripted_env resp summ line els =
     \<lparr>create_message = (\<lambda>msgs w. (Inr resp, w)),
      create_summary = (\<lambda>history prior w. (summ, w)),
      read_input = (\<lambda>w. (Inr line, w)),
      last_elements = (\<lambda>w. els),
      executor = (\<lambda>c w. (Inr (result True (ascii ''tool'') (ascii ''ok'') None None None JNone), w)),
      json_dumps = (\<lambda>v. ascii ''{}'')\<rparr>"

definition blank_element :: DistilledElement where
  "blank_element = \<lparr>el_id = 0, agent_id = ascii ''1-0'', tag = ascii ''button'', el_role = None,
     input_type = None, el_text = [], placeholder = None,
     aria_label = None, href = None, location = ascii ''10x10''\<rparr>"

definition text_response :: "ustr \<Rightarrow> response" where
  "text_response t = \<lparr>resp_content = [TextBlock t], stop_reason = ascii ''max_tokens''\<rparr>"

text \<open>Responses: \<open>finish_task\<close> alone, and \<open>finish_task\<close> after a click that names no element.\<close>

definition finish_response :: response where
  "finish_response =
     \<lparr>resp_content = [ToolUseBlock (ascii ''t1'') (ascii ''finish_task'')
                        [(ascii ''summary'', PStr (ascii ''item added''))]],
      stop_reason = ascii ''tool_use''\<rparr>"

definition click_then_finish_response :: response where
  "click_then_finish_response =
     \<lparr>resp_content = [ToolUseBlock (ascii ''t1'') (ascii ''click_element'') [],
                      ToolUseBlock (ascii ''t2'') (ascii ''finish_task'')
                        [(ascii ''summary'', PStr (ascii ''item added''))]],
      stop_reason = ascii ''tool_use''\<rparr>"

text \<open>
  A conversation as \<open>run\<close> builds it in two iterations with one tool call each: the
  task, then twice an assistant turn with a tool invocation and the user turn with its
  result; and a configuration with window 3.
\<close>

definition cfg_window3 :: AgentConfig where
  "cfg_window3 = \<lparr>model = [], task = ascii ''add a T-shirt to the cart'', max_iterations = 50,
     confirm_actions = False, history_window = 3\<rparr>"

definition two_calls_conversation :: "message list" where
  "two_calls_conversation =
     [\<lparr>msg_role = User, msg_content = CStr (ascii ''add a T-shirt to the cart'')\<rparr>,
      \<lparr>msg_role = Assistant, msg_content = CBlocks [MToolUse (ascii ''t1'') (ascii ''analyze_page'') []]\<rparr>,
      \<lparr>msg_role = User, msg_content = CBlocks [MToolResult (ascii ''t1'') (ascii ''{}'')]\<rparr>,
      \<lparr>msg_role = Assistant, msg_content = CBlocks [MToolUse (ascii ''t2'') (ascii ''go_back'') []]\<rparr>,
      \<lparr>msg_role = User, msg_content = CBlocks [MToolResult (ascii ''t2'') (ascii ''{}'')]\<rparr>]"


text \<open>
  A scripted page over a trivial world: the node selection of the distillation always
  ends as \<open>sel\<close>, no node carries any marker, and every click succeeds. An executor
  whose last distillation is the one blank element.
\<close>

definition scripted_page :: "(exn + dom_node list list \<times> dom_node list) \<Rightarrow> unit page_iface" where
  "scripted_page sel =
     \<lparr>sync_active_page = (\<lambda>p. p),
      now_ms = (\<lambda>p. 1),
      page_ready = (\<lambda>p. True),
      select_nodes = (\<lambda>stamp p. (sel, p)),
      page_title = (\<lambda>p. Inr (ascii ''Shop'')),
      page_url = (\<lambda>p. ascii ''https://shop.example/''),
      locator_count = (\<lambda>marker p. Inr 0),
      click_marker = (\<lambda>marker p. (Inr (), p)),
      click_by_text = (\<lambda>text p. (Inr (), p))\<rparr>"

definition blank_executor :: "unit tool_executor" where
  "blank_executor = \<lparr>ex_last_elements = [blank_element], ex_page = (), ex_clicks = []\<rparr>"

definition visible_button :: dom_node where
  "visible_button = \<lparr>visible = True, node_tag = ascii ''button'', node_role = None,
     node_input_type = None, node_text = ascii ''Add to cart'', node_placeholder = None,
     node_aria_label = None, node_href = None, node_location = ascii ''10x10''\<rparr>"


section \<open>Properties\<close>

subsection \<open>Strings\<close>

lemma py_in_sublist: "py_in xs ys = sublist xs ys"
  by (induction ys) (auto simp: sublist_Cons_right)

lemma sublist_skip_prefix:
  assumes "\<forall>x\<in>set a. P x" "kw \<noteq> []" "\<not> P (hd kw)" "sublist kw (a @ l)"
  shows "sublist kw l"
  using assms
proof (induction a)
  case Nil then show ?case by simp
next
  case (Cons x a)
  from Cons.prems(4) have "prefix kw (x # a @ l) \<or> sublist kw (a @ l)"
    by (simp add: sublist_Cons_right)
  moreover have "\<not> prefix kw (x # a @ l)"
    using Cons.prems(1,2,3) by (cases kw) auto
  ultimately show ?case using Cons by simp
qed

lemma sublist_skip_suffix:
  assumes "\<forall>x\<in>set b. P x" "kw \<noteq> []" "\<not> P (last kw)" "sublist kw (l @ b)"
  shows "sublist kw l"
proof -
  have "sublist (rev kw) (rev b @ rev l)" using assms(4) by (metis rev_append sublist_rev)
  moreover have "hd (rev kw) = last kw" using assms(2) by (simp add: hd_rev)
  ultimately have "sublist (rev kw) (rev l)"
    using sublist_skip_prefix[of "rev b" P "rev kw" "rev l"] assms by simp
  then show ?thesis by simp
qed

lemma py_strip_decomp:
  "\<exists>a b. s = a @ py_strip s @ b \<and> (\<forall>x\<in>set a. py_isspace x) \<and> (\<forall>x\<in>set b. py_isspace x)"
proof -
  let ?d = "dropWhile py_isspace s"
  have 1: "s = takeWhile py_isspace s @ ?d" by simp
  have 2: "rev ?d = takeWhile py_isspace (rev ?d) @ dropWhile py_isspace (rev ?d)" by simp
  have "?d = rev (dropWhile py_isspace (rev ?d)) @ rev (takeWhile py_isspace (rev ?d))"
    by (metis 2 rev_append rev_rev_ident)
  then have "s = takeWhile py_isspace s @ py_strip s @ rev (takeWhile py_isspace (rev ?d))"
    unfolding py_strip_def using 1 by metis
  moreover have "\<forall>x\<in>set (takeWhile py_isspace s). py_isspace x" by (meson set_takeWhileD)
  moreover have "\<forall>x\<in>set (rev (takeWhile py_isspace (rev ?d))). py_isspace x"
    by (metis set_rev set_takeWhileD)
  ultimately show ?thesis by blast
qed

text \<open>A needle with no whitespace at either end that occurs in a string occurs in the stripped string.\<close>

lemma py_in_strip:
  assumes "kw \<noteq> []" "\<not> py_isspace (hd kw)" "\<not> py_isspace (last kw)" "py_in kw s"
  shows "py_in kw (py_strip s)"
proof -
  obtain a b where s: "s = a @ py_strip s @ b" and a: "\<forall>x\<in>set a. py_isspace x"
    and b: "\<forall>x\<in>set b. py_isspace x" using py_strip_decomp by blast
  have "sublist kw (a @ py_strip s @ b)" using assms(4) s by (simp add: py_in_sublist)
  then have "sublist kw (py_strip s @ b)" using sublist_skip_prefix[OF a assms(1,2)] by blast
  then have "sublist kw (py_strip s)" using sublist_skip_suffix[OF b assms(1,3)] by blast
  then show ?thesis by (simp add: py_in_sublist)
qed

subsection \<open>The destructive-action gate\<close>

lemma keywords_shape:
  "\<forall>kw\<in>set dangerous_keywords. kw \<noteq> [] \<and> \<not> py_isspace (hd kw) \<and> \<not> py_isspace (last kw)
      \<and> \<not> py_in kw (ascii ''next page'')"
  by (simp add: dangerous_keywords_def ascii_def py_isspace_def)

text \<open>
  C3. The gate answers true only with confirmation mode on and only for
  \<open>click_element\<close> and \<open>click_text\<close>; for every other action name it answers false.
  With confirmation mode on, a click whose derived label contains a keyword of the
  list (such as "checkout" or the Russian "oplatit'") is gated, and a click whose label
  is "next page" (up to surrounding whitespace) is not. A gated action is cancelled
  when the operator's answer is not affirmative; an action that is not gated is
  dispatched at once.
\<close>

theorem gate_only_clicks:
  "(is_potentially_destructive config els name params \<longrightarrow>
      confirm_actions config \<and> name \<in> {ascii ''click_element'', ascii ''click_text''})
   \<and> (name \<notin> {ascii ''click_element'', ascii ''click_text''} \<longrightarrow>
      \<not> is_potentially_destructive config els name params)
   \<and> (confirm_actions config \<and> name \<in> {ascii ''click_element'', ascii ''click_text''}
        \<and> kw \<in> set dangerous_keywords \<and> py_in kw (derive_label els name params) \<longrightarrow>
      is_potentially_destructive config els name params)
   \<and> (py_strip (derive_label els name params) = ascii ''next page'' \<longrightarrow>
      \<not> is_potentially_destructive config els name params)
   \<and> (is_potentially_destructive config (last_elements E (world st)) name params
        \<and> read_input E (world st) = (Inr line, w')
        \<and> py_lower (py_strip line) \<notin> set affirmative_answers \<longrightarrow>
      dispatch_tool config E name params st
        = (Inr (cancelled_envelope name params), st\<lparr>world := w'\<rparr>))
   \<and> (\<not> is_potentially_destructive config (last_elements E (world st)) name params \<longrightarrow>
      dispatch_tool config E name params st = dispatch_by_name E name params st)"
proof -
  have 1: "confirm_actions config \<and> name \<in> {ascii ''click_element'', ascii ''click_text''}"
    if "is_potentially_destructive config els name params"
    using that by (auto simp: is_potentially_destructive_def split: if_splits)
  have 2: "\<not> is_potentially_destructive config els name params"
    if "name \<notin> {ascii ''click_element'', ascii ''click_text''}"
    using that by (simp add: is_potentially_destructive_def)
  have 3: "is_potentially_destructive config els name params"
    if h: "confirm_actions config \<and> name \<in> {ascii ''click_element'', ascii ''click_text''}
        \<and> kw \<in> set dangerous_keywords \<and> py_in kw (derive_label els name params)"
  proof -
    from h have "kw \<noteq> []" using keywords_shape by blast
    with h have "derive_label els name params \<noteq> []" by (cases kw) auto
    with h show ?thesis
      by (auto simp: is_potentially_destructive_def Let_def list_ex_iff)
  qed
  have 4: "\<not> is_potentially_destructive config els name params"
    if h: "py_strip (derive_label els name params) = ascii ''next page''"
  proof -
    have "\<not> py_in kw (derive_label els name params)" if "kw \<in> set dangerous_keywords" for kw
      using py_in_strip[of kw "derive_label els name params"] keywords_shape that h by auto
    then show ?thesis
      by (auto simp: is_potentially_destructive_def Let_def list_ex_iff)
  qed
  have 5: "dispatch_tool config E name params st
        = (Inr (cancelled_envelope name params), st\<lparr>world := w'\<rparr>)"
    if "is_potentially_destructive config (last_elements E (world st)) name params
        \<and> read_input E (world st) = (Inr line, w')
        \<and> py_lower (py_strip line) \<notin> set affirmative_answers"
    using that by (simp add: dispatch_tool_def)
  have 6: "dispatch_tool config E name params st = dispatch_by_name E name params st"
    if "\<not> is_potentially_destructive config (last_elements E (world st)) name params"
    using that by (simp add: dispatch_tool_def)
  show ?thesis using 1 2 3 4 5 6 by blast
qed

text \<open>
  The gate on a button "Proceed to Checkout" (and the dispatch of that click when the
  operator answers "n"), on the text "Oplatit'" (Russian, "pay"), on a navigation to a
  checkout URL, and on the text "Next page".
\<close>

theorem gate_only_clicks_witness:
  "is_potentially_destructive cfg_on [checkout_button] (ascii ''click_element'')
      [(ascii ''element_id'', PInt 0)]
   \<and> dispatch_tool cfg_on (scripted_env (text_response []) (Inl ValueError) (ascii ''n'') [checkout_button])
        (ascii ''click_element'') [(ascii ''element_id'', PInt 0)]
        \<lparr>summary = [], finished = False, world = ()\<rparr>
      = (Inr (cancelled_envelope (ascii ''click_element'') [(ascii ''element_id'', PInt 0)]),
         \<lparr>summary = [], finished = False, world = ()\<rparr>)
   \<and> is_potentially_destructive cfg_on [] (ascii ''click_text'')
      [(ascii ''text'', PStr [1054, 1087, 1083, 1072, 1090, 1080, 1090, 1100])]
   \<and> \<not> is_potentially_destructive cfg_on [] (ascii ''navigate_url'')
      [(ascii ''url'', PStr (ascii ''https://shop.example/checkout''))]
   \<and> py_strip (derive_label [] (ascii ''click_text'') [(ascii ''text'', PStr (ascii ''Next page''))])
        = ascii ''next page''
   \<and> \<not> is_potentially_destructive cfg_on [] (ascii ''click_text'')
        [(ascii ''text'', PStr (ascii ''Next page''))]
   \<and> dispatch_tool cfg_on (scripted_env (text_response []) (Inl ValueError) (ascii ''n'') [])
        (ascii ''click_text'') [(ascii ''text'', PStr (ascii ''Next page''))]
        \<lparr>summary = [], finished = False, world = ()\<rparr>
      = dispatch_by_name (scripted_env (text_response []) (Inl ValueError) (ascii ''n'') [])
        (ascii ''click_text'') [(ascii ''text'', PStr (ascii ''Next page''))]
        \<lparr>summary = [], finished = False, world = ()\<rparr>"
proof -
  let ?E = "scripted_env (text_response []) (Inl ValueError) (ascii ''n'') [checkout_button]"
  let ?N = "scripted_env (text_response []) (Inl ValueError) (ascii ''n'') []"
  let ?st = "\<lparr>summary = [], finished = False, world = ()\<rparr>"
  have a: "py_in (ascii ''checkout'')
             (derive_label [checkout_button] (ascii ''click_element'') [(ascii ''element_id'', PInt 0)])"
    by (simp add: derive_label_def checkout_button_def ascii_def dict_get_def or_empty_def
          py_lower_def lower_cp_def)
  have b: "py_in [1086, 1087, 1083, 1072, 1090, 1080, 1090, 1100]
             (derive_label [] (ascii ''click_text'')
                [(ascii ''text'', PStr [1054, 1087, 1083, 1072, 1090, 1080, 1090, 1100])])"
    by (simp add: derive_label_def ascii_def dict_get_def py_or_def py_lower_def lower_cp_def)
  have c: "py_strip (derive_label [] (ascii ''click_text'') [(ascii ''text'', PStr (ascii ''Next page''))])
        = ascii ''next page''"
    by (simp add: derive_label_def ascii_def dict_get_def py_or_def py_lower_def lower_cp_def
          py_strip_def py_isspace_def)
  have k1: "ascii ''checkout'' \<in> set dangerous_keywords"
    and k2: "[1086, 1087, 1083, 1072, 1090, 1080, 1090, 1100] \<in> set dangerous_keywords"
    by (simp_all add: dangerous_keywords_def)
  have on: "confirm_actions cfg_on" by (simp add: cfg_on_def)
  have n: "ascii ''navigate_url'' \<notin> {ascii ''click_element'', ascii ''click_text''}"
    by (simp add: ascii_def)
  have le: "last_elements ?E (world ?st) = [checkout_button]"
    and ln: "last_elements ?N (world ?st) = []"
    by (simp_all add: scripted_env_def)
  have r: "read_input ?E (world ?st) = (Inr (ascii ''n''), ())" by (simp add: scripted_env_def)
  have no: "py_lower (py_strip (ascii ''n'')) \<notin> set affirmative_answers"
    by (simp add: affirmative_answers_def py_strip_def py_isspace_def py_lower_def lower_cp_def ascii_def)
  have u: "?st\<lparr>world := ()\<rparr> = ?st" by simp
  have g1: "is_potentially_destructive cfg_on [checkout_button] (ascii ''click_element'')
      [(ascii ''element_id'', PInt 0)]"
    using gate_only_clicks[of cfg_on "[checkout_button]" "ascii ''click_element''"
            "[(ascii ''element_id'', PInt 0)]" "ascii ''checkout''" ?E ?st "ascii ''n''" "()"] a k1 on
    by blast
  have g2: "dispatch_tool cfg_on ?E (ascii ''click_element'') [(ascii ''element_id'', PInt 0)] ?st
      = (Inr (cancelled_envelope (ascii ''click_element'') [(ascii ''element_id'', PInt 0)]), ?st)"
    using gate_only_clicks[of cfg_on "[checkout_button]" "ascii ''click_element''"
            "[(ascii ''element_id'', PInt 0)]" "ascii ''checkout''" ?E ?st "ascii ''n''" "()"]
          g1 le r no u
    by simp
  have g3: "is_potentially_destructive cfg_on [] (ascii ''click_text'')
      [(ascii ''text'', PStr [1054, 1087, 1083, 1072, 1090, 1080, 1090, 1100])]"
    using gate_only_clicks[of cfg_on "[]" "ascii ''click_text''"
            "[(ascii ''text'', PStr [1054, 1087, 1083, 1072, 1090, 1080, 1090, 1100])]"
            "[1086, 1087, 1083, 1072, 1090, 1080, 1090, 1100]" ?N ?st "ascii ''n''" "()"] b k2 on
    by blast
  have g4: "\<not> is_potentially_destructive cfg_on [] (ascii ''navigate_url'')
      [(ascii ''url'', PStr (ascii ''https://shop.example/checkout''))]"
    using gate_only_clicks[of cfg_on "[]" "ascii ''navigate_url''"
            "[(ascii ''url'', PStr (ascii ''https://shop.example/checkout''))]" "[]" ?N ?st "ascii ''n''" "()"] n
    by blast
  have g5: "\<not> is_potentially_destructive cfg_on [] (ascii ''click_text'')
        [(ascii ''text'', PStr (ascii ''Next page''))]"
    using gate_only_clicks[of cfg_on "[]" "ascii ''click_text''"
            "[(ascii ''text'', PStr (ascii ''Next page''))]" "[]" ?N ?st "ascii ''n''" "()"] c
    by blast
  have g6: "dispatch_tool cfg_on ?N (ascii ''click_text'') [(ascii ''text'', PStr (ascii ''Next page''))] ?st
      = dispatch_by_name ?N (ascii ''click_text'') [(ascii ''text'', PStr (ascii ''Next page''))] ?st"
    using gate_only_clicks[of cfg_on "[]" "ascii ''click_text''"
            "[(ascii ''text'', PStr (ascii ''Next page''))]" "[]" ?N ?st "ascii ''n''" "()"] g5 ln
    by simp
  show ?thesis using g1 g2 g3 g4 c g5 g6 by blast
qed

subsection \<open>The explicit-completion heuristic\<close>

text \<open>
  C4. The heuristic tests whether a whitelist phrase occurs anywhere in the lowered
  text, so a hedged sentence that ends in such a phrase triggers it: on the Russian
  sentence "Eto mozhet ukazyvat' na to, chto zadacha vypolnena" ("this may indicate
  that the task is done"), which opens with the very hedge the docstring of the
  function names as ignored, the function answers true.
\<close>

theorem hedged_text_auto_finishes:
  "should_auto_finish_from_text
     [1069, 1090, 1086, 32, 1084, 1086, 1078, 1077, 1090, 32, 1091, 1082, 1072, 1079, 1099, 1074,
      1072, 1090, 1100, 32, 1085, 1072, 32, 1090, 1086, 44, 32, 1095, 1090, 1086, 32,
      1079, 1072, 1076, 1072, 1095, 1072, 32, 1074, 1099, 1087, 1086, 1083, 1085, 1077, 1085, 1072]"
  by (simp add: should_auto_finish_from_text_def finish_markers_def py_lower_def lower_cp_def)

subsection \<open>The summarizer\<close>

text \<open>
  C6. When the summarization call raises, or the joined text of its response is empty
  after stripping, \<open>_summarize_history\<close> returns the prior summary unchanged; so with
  a summarization service that always fails, the History Manager leaves the stored
  summary as it was.
\<close>

theorem summarize_failure_keeps_prior:
  "(create_summary E history prior w = (Inl e, w') \<longrightarrow>
      summarize_history E history prior w = (prior, w'))
   \<and> (create_summary E history prior w = (Inr resp, w')
        \<and> py_strip (py_join [10] (text_parts (resp_content resp))) = [] \<longrightarrow>
      summarize_history E history prior w = (prior, w'))
   \<and> ((\<forall>h p v. \<exists>x v'. create_summary E h p v = (Inl x, v')) \<longrightarrow>
      summary (snd (apply_history_window config E messages st)) = summary st)"
proof -
  have 1: "summarize_history E history prior w = (prior, w')"
    if "create_summary E history prior w = (Inl e, w')"
    using that by (simp add: summarize_history_def)
  have 2: "summarize_history E history prior w = (prior, w')"
    if "create_summary E history prior w = (Inr resp, w')
        \<and> py_strip (py_join [10] (text_parts (resp_content resp))) = []"
    using that by (simp add: summarize_history_def)
  have 3: "summary (snd (apply_history_window config E messages st)) = summary st"
    if fails: "\<forall>h p v. \<exists>x v'. create_summary E h p v = (Inl x, v')"
  proof -
    have "fst (summarize_history E h p v) = p" for h p v
    proof -
      obtain x v' where "create_summary E h p v = (Inl x, v')" using fails by blast
      then show ?thesis by (simp add: summarize_history_def)
    qed
    then show ?thesis
      by (simp add: apply_history_window_def Let_def split: prod.splits) (metis fst_conv)
  qed
  show ?thesis using 1 2 3 by blast
qed

text \<open>A failing call and a call that answers one blank, with the prior summary "do not pay".\<close>

theorem summarize_failure_keeps_prior_witness:
  "create_summary (scripted_env (text_response []) (Inl (OtherError (ascii ''overloaded''))) [] [])
      [] (ascii ''do not pay'') () = (Inl (OtherError (ascii ''overloaded'')), ())
   \<and> summarize_history (scripted_env (text_response []) (Inl (OtherError (ascii ''overloaded''))) [] [])
      [] (ascii ''do not pay'') () = (ascii ''do not pay'', ())
   \<and> create_summary (scripted_env (text_response []) (Inr (text_response (ascii '' ''))) [] [])
      [] (ascii ''do not pay'') () = (Inr (text_response (ascii '' '')), ())
   \<and> py_strip (py_join [10] (text_parts (resp_content (text_response (ascii '' ''))))) = []
   \<and> summarize_history (scripted_env (text_response []) (Inr (text_response (ascii '' ''))) [] [])
      [] (ascii ''do not pay'') () = (ascii ''do not pay'', ())
   \<and> summary (snd (apply_history_window cfg_window3
         (scripted_env (text_response []) (Inl (OtherError (ascii ''overloaded''))) [] [])
         two_calls_conversation \<lparr>summary = ascii ''do not pay'', finished = False, world = ()\<rparr>))
       = ascii ''do not pay''"
proof -
  let ?F = "scripted_env (text_response []) (Inl (OtherError (ascii ''overloaded''))) [] []"
  have a: "create_summary ?F h p v = (Inl (OtherError (ascii ''overloaded'')), ())" for h p v
    by (simp add: scripted_env_def)
  have b: "create_summary (scripted_env (text_response []) (Inr (text_response (ascii '' ''))) [] [])
      [] (ascii ''do not pay'') () = (Inr (text_response (ascii '' '')), ())"
    by (simp add: scripted_env_def)
  have c: "py_strip (py_join [10] (text_parts (resp_content (text_response (ascii '' ''))))) = []"
    by (simp add: text_response_def text_parts_def py_strip_def py_isspace_def ascii_def)
  have d: "\<forall>h p v. \<exists>x v'. create_summary ?F h p v = (Inl x, v')"
    using a by blast
  have e: "summary \<lparr>summary = ascii ''do not pay'', finished = False, world = ()\<rparr> = ascii ''do not pay''"
    by simp
  show ?thesis
    using summarize_failure_keeps_prior[of ?F
            "[]" "ascii ''do not pay''" "()" "OtherError (ascii ''overloaded'')" "()" _
            cfg_window3 two_calls_conversation
            "\<lparr>summary = ascii ''do not pay'', finished = False, world = ()\<rparr>"]
          summarize_failure_keeps_prior[of
            "scripted_env (text_response []) (Inr (text_response (ascii '' ''))) [] []"
            "[]" "ascii ''do not pay''" "()" _ "()" "text_response (ascii '' '')"]
          a b c d e
    by simp
qed

subsection \<open>Clicks that carry no label\<close>


lemma dispatch_click_element:
  "dispatch_by_name E (ascii ''click_element'') params st =
     call_executor E (bind_exn (req_int params (ascii ''element_id'')) (\<lambda>i. Inr (ClickElement i))) st"
  by (simp add: dispatch_by_name_def ascii_def)




subsection \<open>The dispatcher\<close>

lemma not_gated_other:
  "name \<notin> {ascii ''click_element'', ascii ''click_text''} \<Longrightarrow>
     dispatch_tool config E name params st = dispatch_by_name E name params st"
  by (simp add: dispatch_tool_def is_potentially_destructive_def)

lemma dispatch_unknown:
  assumes "name \<notin> set dispatch_table"
  shows "dispatch_tool config E name params st = (Inr (unknown_tool_result name), st)"
proof -
  have "name \<notin> {ascii ''click_element'', ascii ''click_text''}"
    using assms by (simp add: dispatch_table_def)
  then have "dispatch_tool config E name params st = dispatch_by_name E name params st"
    by (rule not_gated_other)
  also have "\<dots> = (Inr (unknown_tool_result name), st)"
    using assms by (simp add: dispatch_by_name_def dispatch_table_def)
  finally show ?thesis .
qed

lemma foo_unknown: "ascii ''foo'' \<notin> set dispatch_table"
  by (simp add: dispatch_table_def ascii_def)

text \<open>
  C8. On the tool name "foo", which the chain does not know, \<open>_dispatch_tool\<close> returns
  a dict whose only key is \<open>error\<close>: it has no \<open>success\<close> key, unlike the cancellation
  result of the same function and every result built by \<open>_result\<close>. The loop does feed
  it back as a tool result and goes on with the next block.
\<close>

theorem unknown_tool_result_shape:
  "dispatch_tool config E (ascii ''foo'') params st
     = (Inr [(ascii ''error'', JStr (ascii ''Unknown tool '' @ [39] @ ascii ''foo'' @ [39]))], st)
   \<and> map_of (unknown_tool_result (ascii ''foo'')) (ascii ''success'') = None
   \<and> map_of (cancelled_envelope name params) (ascii ''success'') = Some (JBool False)
   \<and> map_of (result False action message error_type error suggestion data) (ascii ''success'')
       = Some (JBool False)
   \<and> process_blocks config E i (ToolUseBlock bid (ascii ''foo'') params # bs) acc st
       = process_blocks config E i bs
           (acc @ [MToolResult bid
                     (truncate_content (json_dumps E (JDict (unknown_tool_result (ascii ''foo'')))) 4000)])
           st"
proof -
  have 1: "dispatch_tool config E (ascii ''foo'') params st
     = (Inr [(ascii ''error'', JStr (ascii ''Unknown tool '' @ [39] @ ascii ''foo'' @ [39]))], st)"
    using dispatch_unknown[OF foo_unknown] by (simp add: unknown_tool_result_def)
  have 2: "map_of (unknown_tool_result (ascii ''foo'')) (ascii ''success'') = None"
    by (simp add: unknown_tool_result_def ascii_def)
  have 3: "map_of (cancelled_envelope name params) (ascii ''success'') = Some (JBool False)"
    by (simp add: cancelled_envelope_def)
  have 4: "map_of (result False action message error_type error suggestion data) (ascii ''success'')
       = Some (JBool False)"
    by (simp add: result_def)
  have 5: "strip_payload (ascii ''foo'') (unknown_tool_result (ascii ''foo''))
     = unknown_tool_result (ascii ''foo'')"
    by (simp add: strip_payload_def unknown_tool_result_def env_get_def ascii_def)
  have 6: "ascii ''foo'' \<noteq> ascii ''finish_task''" by (simp add: ascii_def)
  have 7: "process_blocks config E i (ToolUseBlock bid (ascii ''foo'') params # bs) acc st
       = process_blocks config E i bs
           (acc @ [MToolResult bid
                     (truncate_content (json_dumps E (JDict (unknown_tool_result (ascii ''foo'')))) 4000)])
           st"
    using dispatch_unknown[OF foo_unknown, of config E params st] 5 6 by simp
  show ?thesis using 1 2 3 4 7 by simp
qed

subsection \<open>The agent loop\<close>

lemma dispatch_finish_task:
  "dispatch_tool config E (ascii ''finish_task'') params st
     = (Inr (finish_envelope (dict_get_default params (ascii ''summary'') (PStr []))),
        st\<lparr>finished := True\<rparr>)"
proof -
  have "ascii ''finish_task'' \<notin> {ascii ''click_element'', ascii ''click_text''}"
    by (simp add: ascii_def)
  then have "dispatch_tool config E (ascii ''finish_task'') params st
      = dispatch_by_name E (ascii ''finish_task'') params st"
    by (rule not_gated_other)
  also have "\<dots> = (Inr (finish_envelope (dict_get_default params (ascii ''summary'') (PStr []))),
        st\<lparr>finished := True\<rparr>)"
    by (simp add: dispatch_by_name_def ascii_def)
  finally show ?thesis .
qed

lemma process_blocks_append:
  "process_blocks config E i (pre @ bs) acc st =
     (case process_blocks config E i pre acc st of
        BlocksDone r s \<Rightarrow> process_blocks config E i bs r s
      | BlocksReturn out s \<Rightarrow> BlocksReturn out s)"
proof (induction pre arbitrary: acc st)
  case Nil
  then show ?case by simp
next
  case (Cons b pre)
  show ?case
  proof (cases b)
    case (TextBlock t)
    then show ?thesis using Cons.IH by (simp add: Let_def)
  next
    case (ToolUseBlock bid name params)
    then show ?thesis using Cons.IH
      by (simp split: prod.splits sum.splits)
  next
    case OtherBlock
    then show ?thesis using Cons.IH by simp
  qed
qed

lemma process_blocks_outcomes:
  "process_blocks config E i bs acc st = BlocksReturn out s \<Longrightarrow>
     finished_at i out \<or> (\<exists>e. out = Raised i e)"
proof (induction bs arbitrary: acc st)
  case Nil
  then show ?case by simp
next
  case (Cons b bs)
  show ?case
  proof (cases b)
    case (TextBlock t)
    then show ?thesis using Cons
      by (auto simp: Let_def finished_at_def split: if_splits)
  next
    case (ToolUseBlock bid name params)
    then show ?thesis using Cons
      by (auto simp: finished_at_def split: prod.splits sum.splits if_splits)
  next
    case OtherBlock
    then show ?thesis using Cons by simp
  qed
qed

text \<open>
  C2 (amended). In any iteration \<open>i\<close>, from any state and whatever iterations remain:
  if the response holds a \<open>finish_task\<close> invocation and the blocks before it are
  processed without an exception, \<open>run\<close> ends in iteration \<open>i\<close> reporting the task
  finished (by \<open>finish_task\<close>, or by an auto-finish text that precedes it), and the
  remaining iterations play no part.
\<close>

theorem finish_task_terminates:
  assumes "create_message E messages (world st) = (Inr resp, w')"
    and "resp_content resp = pre @ ToolUseBlock bid (ascii ''finish_task'') params # post"
    and "\<forall>e s. process_blocks config E i pre [] (st\<lparr>world := w'\<rparr>) \<noteq> BlocksReturn (Raised i e) s"
  shows "finished_at i (fst (run_iters config E (i # its) messages st))
    \<and> run_iters config E (i # its) messages st = run_iters config E [i] messages st"
proof -
  let ?st0 = "st\<lparr>world := w'\<rparr>"
  have "\<exists>out s. process_blocks config E i (resp_content resp) [] ?st0 = BlocksReturn out s
           \<and> finished_at i out"
  proof (cases "process_blocks config E i pre [] ?st0")
    case (BlocksDone r s)
    then show ?thesis
      using assms(2)
      by (simp add: process_blocks_append dispatch_finish_task finished_at_def)
  next
    case (BlocksReturn out s)
    then have "finished_at i out" using process_blocks_outcomes assms(3) by blast
    then show ?thesis using BlocksReturn assms(2) by (simp add: process_blocks_append)
  qed
  then obtain out s where "process_blocks config E i (resp_content resp) [] ?st0 = BlocksReturn out s"
    and "finished_at i out" by blast
  then show ?thesis using assms(1) by (simp add: Let_def)
qed

lemma iterations_50: "[1..<nat (50 + 1)] = 1 # [2..<51]"
  by (simp add: upt_conv_Cons)


text \<open>With 50 iterations allowed and \<open>finish_task\<close> as the first response, the run ends in iteration 1.\<close>

theorem finish_task_terminates_witness:
  "create_message (scripted_env finish_response (Inl ValueError) [] [])
      [\<lparr>msg_role = User, msg_content = CStr (task cfg_on)\<rparr>]
      (world \<lparr>summary = [], finished = False, world = ()\<rparr>) = (Inr finish_response, ())
   \<and> resp_content finish_response
       = [] @ ToolUseBlock (ascii ''t1'') (ascii ''finish_task'')
                [(ascii ''summary'', PStr (ascii ''item added''))] # []
   \<and> max_iterations cfg_on = 50
   \<and> finished_at 1 (fst (run cfg_on (scripted_env finish_response (Inl ValueError) [] []) ()))"
proof -
  let ?E = "scripted_env finish_response (Inl ValueError) [] []"
  let ?st = "\<lparr>summary = [], finished = False, world = ()\<rparr>"
  let ?m = "[\<lparr>msg_role = User, msg_content = CStr (task cfg_on)\<rparr>]"
  have a: "create_message ?E ?m (world ?st) = (Inr finish_response, ())"
    by (simp add: scripted_env_def)
  have b: "resp_content finish_response
       = [] @ ToolUseBlock (ascii ''t1'') (ascii ''finish_task'')
                [(ascii ''summary'', PStr (ascii ''item added''))] # []"
    by (simp add: finish_response_def)
  have c: "\<forall>e s. process_blocks cfg_on ?E 1 [] [] (?st\<lparr>world := ()\<rparr>) \<noteq> BlocksReturn (Raised 1 e) s"
    by simp
  have d: "max_iterations cfg_on = 50" by (simp add: cfg_on_def)
  have "finished_at 1 (fst (run_iters cfg_on ?E (1 # [2..<51]) ?m ?st))"
    using finish_task_terminates[OF a b c, of "[2..<51]"] by blast
  then have "finished_at 1 (fst (run cfg_on ?E ()))"
    by (simp only: run_def d iterations_50)
  then show ?thesis using a b d by blast
qed

text \<open>
  A response that holds \<open>finish_task\<close> after a \<open>click_element\<close> without
  \<open>element_id\<close>: the KeyError of \<open>params["element_id"]\<close> leaves \<open>run\<close> before
  \<open>finish_task\<close> is reached.
\<close>

theorem finish_after_failing_call_counterexample:
  "max_iterations cfg_on = 50
   \<and> ToolUseBlock (ascii ''t2'') (ascii ''finish_task'') [(ascii ''summary'', PStr (ascii ''item added''))]
       \<in> set (resp_content click_then_finish_response)
   \<and> fst (run cfg_on (scripted_env click_then_finish_response (Inl ValueError) [] []) ())
       = Raised 1 (KeyError (ascii ''element_id''))"
proof -
  let ?E = "scripted_env click_then_finish_response (Inl ValueError) [] []"
  let ?st = "\<lparr>summary = [], finished = False, world = ()\<rparr>"
  have d: "max_iterations cfg_on = 50" by (simp add: cfg_on_def)
  have g: "\<not> is_potentially_destructive cfg_on (last_elements ?E ()) (ascii ''click_element'') []"
    by (simp add: is_potentially_destructive_def derive_label_def dict_get_def ascii_def)
  have "dispatch_tool cfg_on ?E (ascii ''click_element'') [] ?st
      = (Inl (KeyError (ascii ''element_id'')), ?st)"
    using g by (simp add: dispatch_tool_def dispatch_click_element req_int_def dict_item_def
        bind_exn_def call_executor_def)
  then have "process_blocks cfg_on ?E 1 (resp_content click_then_finish_response) [] ?st
      = BlocksReturn (Raised 1 (KeyError (ascii ''element_id''))) ?st"
    by (simp add: click_then_finish_response_def)
  moreover have "create_message ?E msgs () = (Inr click_then_finish_response, ())" for msgs
    by (simp add: scripted_env_def)
  ultimately have "fst (run_iters cfg_on ?E (1 # [2..<51]) [\<lparr>msg_role = User, msg_content = CStr (task cfg_on)\<rparr>] ?st)
      = Raised 1 (KeyError (ascii ''element_id''))"
    by (simp add: Let_def)
  then have "fst (run cfg_on ?E ()) = Raised 1 (KeyError (ascii ''element_id''))"
    by (simp only: run_def d iterations_50)
  moreover have "ToolUseBlock (ascii ''t2'') (ascii ''finish_task'') [(ascii ''summary'', PStr (ascii ''item added''))]
       \<in> set (resp_content click_then_finish_response)"
    by (simp add: click_then_finish_response_def)
  ultimately show ?thesis using d by blast
qed





subsection \<open>The History Manager\<close>















subsection \<open>The executor: distillation and clicks\<close>

lemma distill_loop_length:
  "length acc < 200 \<Longrightarrow> length (distill_loop stamp n acc nodes) \<le> 200"
proof (induction nodes arbitrary: n acc)
  case Nil
  then show ?case by simp
next
  case (Cons el els)
  show ?case
  proof (cases "visible el")
    case False
    then show ?thesis using Cons by simp
  next
    case True
    show ?thesis
    proof (cases "Suc (length acc) \<ge> 200")
      case True
      then show ?thesis using \<open>visible el\<close> Cons.prems by (simp add: Let_def)
    next
      case False
      then show ?thesis using \<open>visible el\<close> Cons.IH[of "acc @ [_]"] by (simp add: Let_def)
    qed
  qed
qed

lemma distill_script_length: "length (distill_script stamp dialogs page_nodes) \<le> 200"
  by (simp add: distill_script_def Let_def distill_loop_length)

lemma to_elements_length: "length (to_elements raws) = length raws"
  by (simp add: to_elements_def)

lemma to_elements_ids: "map el_id (to_elements raws) = map int [0..<length raws]"
proof -
  have a: "map el_id (to_elements raws) = map (\<lambda>p. int (fst p)) (enumerate 0 raws)"
    by (simp add: to_elements_def case_prod_beta)
  have "map (\<lambda>p. int (fst p)) ps = map int (map fst ps)" for ps :: "(nat \<times> raw_element) list"
    by (simp add: comp_def)
  then have b: "map (\<lambda>p. int (fst p)) (enumerate 0 raws) = map int (map fst (enumerate 0 raws))" .
  have c: "map fst (enumerate 0 raws) = [0..<length raws]"
    by (simp add: map_fst_enumerate)
  show ?thesis by (simp only: a b c)
qed

lemma find_sequential:
  assumes "map f xs = map int [0..<length xs]"
  shows "find (\<lambda>x. f x = i) xs =
           (if 0 \<le> i \<and> i < int (length xs) then Some (xs ! nat i) else None)"
proof -
  have ids: "f (xs ! k) = int k" if "k < length xs" for k
  proof -
    have "map f xs ! k = map int [0..<length xs] ! k" using assms by simp
    then show ?thesis using that by simp
  qed
  show ?thesis
  proof (cases "0 \<le> i \<and> i < int (length xs)")
    case True
    then have k: "nat i < length xs" by linarith
    have "f (xs ! nat i) = i" using ids[OF k] True by simp
    moreover have "\<forall>j<nat i. f (xs ! j) \<noteq> i" using ids k by auto
    ultimately have "find (\<lambda>x. f x = i) xs = Some (xs ! nat i)"
      using k by (auto simp: find_Some_iff)
    then show ?thesis using True by simp
  next
    case False
    have "\<not> (\<exists>x\<in>set xs. f x = i)"
    proof
      assume "\<exists>x\<in>set xs. f x = i"
      then obtain k where "k < length xs" "f (xs ! k) = i" by (auto simp: in_set_conv_nth)
      then show False using ids False by auto
    qed
    then have "find (\<lambda>x. f x = i) xs = None" by (simp add: find_None_iff)
    then show ?thesis using False by simp
  qed
qed

lemma result_success: "env_get (result s a m et er su d) (ascii ''success'') = JBool s"
  by (simp add: result_def env_get_def)

lemma result_error_type: "env_get (result s a m et er su d) (ascii ''error_type'') = jv_opt et"
  by (simp add: result_def env_get_def ascii_def)

lemma result_suggestion: "env_get (result s a m et er su d) (ascii ''suggestion'') = jv_opt su"
  by (simp add: result_def env_get_def ascii_def)

lemma failure_not_success:
  "env_get (result False a m et er su d) (ascii ''success'') \<noteq> JBool True"
  by (simp add: result_def env_get_def)

lemma analyze_page_success:
  assumes "succeeded (fst (analyze_page P ex fmt))"
  shows "\<exists>stamp dialogs page_nodes.
           ex_last_elements (snd (analyze_page P ex fmt))
             = to_elements (distill_script stamp dialogs page_nodes)"
proof -
  let ?p0 = "sync_active_page P (ex_page ex)"
  let ?stamp = "str_of_int (now_ms P ?p0)"
  have f: "\<not> succeeded (Inr (result False a m et er su d))" for a m et er su d
    by (simp add: succeeded_def failure_not_success)
  show ?thesis
  proof (cases "page_ready P ?p0")
    case False
    then have "\<exists>a m et er su d. fst (analyze_page P ex fmt) = Inr (result False a m et er su d)"
      unfolding analyze_page_def Let_def by (simp only: if_True simp_thms fst_conv) blast
    then show ?thesis using assms f by auto
  next
    case True
    obtain r p1 where sel: "select_nodes P ?stamp ?p0 = (r, p1)"
      by (cases "select_nodes P ?stamp ?p0")
    show ?thesis
    proof (cases r)
      case (Inl exc)
      then have "\<exists>a m et er su d. fst (analyze_page P ex fmt) = Inr (result False a m et er su d)"
        using True sel unfolding analyze_page_def Let_def
        by (simp only: simp_thms if_False prod.case sum.case fst_conv) blast
      then show ?thesis using assms f by auto
    next
      case (Inr nodes)
      obtain dialogs page_nodes where n: "nodes = (dialogs, page_nodes)" by (cases nodes)
      have "ex_last_elements (snd (analyze_page P ex fmt))
              = to_elements (distill_script ?stamp dialogs page_nodes)"
        using True sel Inr n unfolding analyze_page_def Let_def
        by (cases "page_title P p1") simp_all
      then show ?thesis by blast
    qed
  qed
qed

text \<open>
  C10. After a successful \<open>analyze_page\<close>, the last distillation holds at most 200
  elements, their ids are 0, 1, ... in list order, and \<open>_get_element(i)\<close> returns the
  i-th element exactly when \<open>0 \<le> i < N\<close>, and None otherwise.
\<close>

theorem distillation_ids:
  assumes "succeeded (fst (analyze_page P ex fmt))"
  shows "length (ex_last_elements (snd (analyze_page P ex fmt))) \<le> 200
    \<and> map el_id (ex_last_elements (snd (analyze_page P ex fmt)))
        = map int [0..<length (ex_last_elements (snd (analyze_page P ex fmt)))]
    \<and> (\<forall>i. get_element (snd (analyze_page P ex fmt)) i =
          (if 0 \<le> i \<and> i < int (length (ex_last_elements (snd (analyze_page P ex fmt))))
           then Some (ex_last_elements (snd (analyze_page P ex fmt)) ! nat i) else None))"
proof -
  let ?ex' = "snd (analyze_page P ex fmt)"
  obtain stamp dialogs page_nodes
    where els: "ex_last_elements ?ex' = to_elements (distill_script stamp dialogs page_nodes)"
    using analyze_page_success[OF assms] by blast
  have 1: "length (ex_last_elements ?ex') \<le> 200"
    by (simp add: els to_elements_length distill_script_length)
  have 2: "map el_id (ex_last_elements ?ex') = map int [0..<length (ex_last_elements ?ex')]"
    by (simp add: els to_elements_ids to_elements_length)
  have 3: "get_element ?ex' i =
          (if 0 \<le> i \<and> i < int (length (ex_last_elements ?ex'))
           then Some (ex_last_elements ?ex' ! nat i) else None)" for i
    unfolding get_element_def using find_sequential[OF 2] .
  show ?thesis using 1 2 3 by blast
qed

text \<open>A page with two visible buttons and no dialog.\<close>

theorem distillation_ids_witness:
  "succeeded (fst (analyze_page (scripted_page (Inr ([], [visible_button, visible_button])))
                     blank_executor (PStr (ascii ''concise''))))
   \<and> map el_id (ex_last_elements (snd (analyze_page (scripted_page (Inr ([], [visible_button, visible_button])))
                     blank_executor (PStr (ascii ''concise''))))) = [0, 1]
   \<and> get_element (snd (analyze_page (scripted_page (Inr ([], [visible_button, visible_button])))
                     blank_executor (PStr (ascii ''concise'')))) 2 = None"
proof -
  let ?P = "scripted_page (Inr ([], [visible_button, visible_button]))"
  let ?a = "analyze_page ?P blank_executor (PStr (ascii ''concise''))"
  have els: "length (ex_last_elements (snd ?a)) = 2"
    by (simp add: analyze_page_def scripted_page_def Let_def distill_script_def visible_button_def
        to_elements_def)
  have s: "succeeded (fst ?a)"
    by (simp add: analyze_page_def scripted_page_def Let_def succeeded_def result_success)
  have "[0..<2] = [0, Suc 0]" by (simp add: upt_conv_Cons)
  then show ?thesis using distillation_ids[OF s] s els by simp
qed

lemma analyze_page_clicks: "ex_clicks (snd (analyze_page P ex fmt)) = ex_clicks ex"
proof -
  let ?p0 = "sync_active_page P (ex_page ex)"
  let ?stamp = "str_of_int (now_ms P ?p0)"
  show ?thesis
  proof (cases "page_ready P ?p0")
    case False
    then show ?thesis unfolding analyze_page_def Let_def by simp
  next
    case True
    obtain r p1 where sel: "select_nodes P ?stamp ?p0 = (r, p1)"
      by (cases "select_nodes P ?stamp ?p0")
    show ?thesis
    proof (cases r)
      case (Inl exc)
      then show ?thesis using True sel unfolding analyze_page_def Let_def by simp
    next
      case (Inr nodes)
      obtain dialogs page_nodes where n: "nodes = (dialogs, page_nodes)" by (cases nodes)
      show ?thesis
        using True sel Inr n unfolding analyze_page_def Let_def
        by (cases "page_title P p1") simp_all
    qed
  qed
qed

lemma click_try_vanished:
  assumes "locator_count P (agent_id element) (ex_page ex) = Inr 0"
    and "py_strip (el_text element) = []"
  shows "click_try P ex element element_id =
     (case analyze_page P ex (PStr (ascii ''detailed'')) of
        (Inl exc, ex1) \<Rightarrow> (Inl exc, ex1)
      | (Inr snapshot, ex1) \<Rightarrow>
          (Inr (if \<not> jv_truthy (env_get snapshot (ascii ''success''))
                then result False (ascii ''click_element'')
                       (ascii ''Element disappeared and re-analyze_page() failed'')
                       (Some (ascii ''ClickError'')) None
                       (Some (ascii ''Try analyze_page() manually and use search_elements()/click_text().''))
                       JNone
                else result False (ascii ''click_element'')
                       (ascii ''Element disappeared and has no stable text to match'')
                       (Some (ascii ''ElementNotFound'')) None
                       (Some (ascii ''Run analyze_page() again and choose element by new ID.''))
                       JNone),
           ex1))"
  using assms unfolding click_try_def Let_def
  by (simp split: prod.splits sum.splits)

text \<open>
  C5 (amended). For an id of the last distillation whose marker is on no node of the
  page and whose captured text is empty after stripping, \<open>click_element\<close> distills the
  page again and returns a failure envelope with a suggestion, and no click is issued:
  neither on a refreshed marker nor by visible text. The error type is ElementNotFound
  when the new distillation succeeds; it is ClickError when the new distillation
  returns a failure or raises, and Timeout when it raises the driver's timeout.
\<close>

theorem vanished_blank_element:
  assumes "get_element ex element_id = Some element" and "page_ready P (ex_page ex)"
    and "locator_count P (agent_id element) (ex_page ex) = Inr 0"
    and "py_strip (el_text element) = []"
  shows "\<exists>env. click_element P ex element_id
                 = (Inr env, snd (analyze_page P ex (PStr (ascii ''detailed''))))
     \<and> ex_clicks (snd (analyze_page P ex (PStr (ascii ''detailed'')))) = ex_clicks ex
     \<and> env_get env (ascii ''success'') = JBool False
     \<and> (\<exists>s. env_get env (ascii ''suggestion'') = JStr s \<and> s \<noteq> [])
     \<and> env_get env (ascii ''error_type'') =
         (case fst (analyze_page P ex (PStr (ascii ''detailed''))) of
            Inr snapshot \<Rightarrow>
              if jv_truthy (env_get snapshot (ascii ''success''))
              then JStr (ascii ''ElementNotFound'') else JStr (ascii ''ClickError'')
          | Inl exc \<Rightarrow>
              if is_timeout exc then JStr (ascii ''Timeout'') else JStr (ascii ''ClickError''))"
proof -
  obtain r ex1 where a: "analyze_page P ex (PStr (ascii ''detailed'')) = (r, ex1)"
    by (cases "analyze_page P ex (PStr (ascii ''detailed''))")
  have clicks: "ex_clicks ex1 = ex_clicks ex"
    using analyze_page_clicks[of P ex "PStr (ascii ''detailed'')"] a by simp
  have sugg: "jv_opt (Some (ascii s)) = JStr (ascii s) \<and> (s \<noteq> [] \<longrightarrow> ascii s \<noteq> [])" for s
    by (simp add: jv_opt_def ascii_def)
  show ?thesis
  proof (cases r)
    case (Inr snapshot)
    then have "click_try P ex element element_id =
      (Inr (if \<not> jv_truthy (env_get snapshot (ascii ''success''))
                then result False (ascii ''click_element'')
                       (ascii ''Element disappeared and re-analyze_page() failed'')
                       (Some (ascii ''ClickError'')) None
                       (Some (ascii ''Try analyze_page() manually and use search_elements()/click_text().''))
                       JNone
                else result False (ascii ''click_element'')
                       (ascii ''Element disappeared and has no stable text to match'')
                       (Some (ascii ''ElementNotFound'')) None
                       (Some (ascii ''Run analyze_page() again and choose element by new ID.''))
                       JNone), ex1)"
      using click_try_vanished[OF assms(3,4), of element_id] a by simp
    then show ?thesis
      using assms(1,2) a Inr clicks
      by (simp add: click_element_def result_success result_error_type result_suggestion sugg)
  next
    case (Inl exc)
    then have "click_try P ex element element_id = (Inl exc, ex1)"
      using click_try_vanished[OF assms(3,4), of element_id] a by simp
    then show ?thesis
      using assms(1,2,4) a Inl clicks
      by (simp add: click_element_def Let_def result_success result_error_type result_suggestion sugg)
  qed
qed


text \<open>The blank element 0 on a page that distills to nothing.\<close>

theorem vanished_blank_element_witness:
  "get_element blank_executor 0 = Some blank_element
   \<and> page_ready (scripted_page (Inr ([], []))) (ex_page blank_executor)
   \<and> locator_count (scripted_page (Inr ([], []))) (agent_id blank_element) (ex_page blank_executor) = Inr 0
   \<and> py_strip (el_text blank_element) = []
   \<and> succeeded (fst (analyze_page (scripted_page (Inr ([], []))) blank_executor (PStr (ascii ''detailed''))))
   \<and> (\<exists>env ex'. click_element (scripted_page (Inr ([], []))) blank_executor 0 = (Inr env, ex')
         \<and> ex_clicks ex' = []
         \<and> env_get env (ascii ''success'') = JBool False
         \<and> env_get env (ascii ''error_type'') = JStr (ascii ''ElementNotFound''))"
proof -
  let ?P = "scripted_page (Inr ([], []))"
  have a: "get_element blank_executor 0 = Some blank_element"
    by (simp add: get_element_def blank_executor_def blank_element_def)
  have b: "page_ready ?P (ex_page blank_executor)" by (simp add: scripted_page_def)
  have c: "locator_count ?P (agent_id blank_element) (ex_page blank_executor) = Inr 0"
    by (simp add: scripted_page_def)
  have d: "py_strip (el_text blank_element) = []" by (simp add: blank_element_def py_strip_def)
  have s: "succeeded (fst (analyze_page ?P blank_executor (PStr (ascii ''detailed''))))"
    by (simp add: analyze_page_def scripted_page_def Let_def succeeded_def result_success)
  have k: "ex_clicks blank_executor = []" by (simp add: blank_executor_def)
  obtain snapshot where f: "fst (analyze_page ?P blank_executor (PStr (ascii ''detailed''))) = Inr snapshot"
    and t: "jv_truthy (env_get snapshot (ascii ''success''))"
    using s by (auto simp: succeeded_def split: sum.splits)
  show ?thesis
    using vanished_blank_element[OF a b c d] a b c d s k f t by auto
qed

text \<open>
  The blank element 0 on a page whose distillation script raises: the result is a
  ClickError, not ElementNotFound.
\<close>

theorem failed_redistillation_counterexample:
  "get_element blank_executor 0 = Some blank_element
   \<and> locator_count (scripted_page (Inl (OtherError (ascii ''Execution context was destroyed''))))
        (agent_id blank_element) (ex_page blank_executor) = Inr 0
   \<and> py_strip (el_text blank_element) = []
   \<and> click_element (scripted_page (Inl (OtherError (ascii ''Execution context was destroyed''))))
        blank_executor 0
      = (Inr (result False (ascii ''click_element'')
                (ascii ''Element disappeared and re-analyze_page() failed'')
                (Some (ascii ''ClickError'')) None
                (Some (ascii ''Try analyze_page() manually and use search_elements()/click_text().''))
                JNone),
         blank_executor)"
proof -
  let ?P = "scripted_page (Inl (OtherError (ascii ''Execution context was destroyed'')))"
  have a: "get_element blank_executor 0 = Some blank_element"
    by (simp add: get_element_def blank_executor_def blank_element_def)
  have c: "locator_count ?P (agent_id blank_element) (ex_page blank_executor) = Inr 0"
    by (simp add: scripted_page_def)
  have d: "py_strip (el_text blank_element) = []" by (simp add: blank_element_def py_strip_def)
  have an: "analyze_page ?P blank_executor (PStr (ascii ''detailed''))
      = (Inr (result False (ascii ''analyze_page'') (ascii ''Failed to analyze page'')
                        (Some (ascii ''AnalysisError''))
                        (Some (ascii ''Execution context was destroyed''))
                        (Some (ascii ''Try: 1) wait_for_element(); 2) close_modal(); 3) analyze_page() again.''))
                        JNone), blank_executor)"
    by (simp add: analyze_page_def scripted_page_def Let_def blank_executor_def)
  have "click_try ?P blank_executor blank_element 0
      = (Inr (result False (ascii ''click_element'')
                (ascii ''Element disappeared and re-analyze_page() failed'')
                (Some (ascii ''ClickError'')) None
                (Some (ascii ''Try analyze_page() manually and use search_elements()/click_text().''))
                JNone),
         blank_executor)"
    by (simp add: click_try_vanished[OF c d] an result_success)
  then have "click_element ?P blank_executor 0
      = (Inr (result False (ascii ''click_element'')
                (ascii ''Element disappeared and re-analyze_page() failed'')
                (Some (ascii ''ClickError'')) None
                (Some (ascii ''Try analyze_page() manually and use search_elements()/click_text().''))
                JNone),
         blank_executor)"
    using a by (simp add: click_element_def scripted_page_def)
  then show ?thesis using a c d by blast
qed

end
